theory Spec2Isabelle
  imports Complex_Main "HOL-Library.Sublist"
begin

section \<open>Numbers and strings of the host language\<close>

text \<open>
  The program is TypeScript; its numbers are doubles. A number is modelled as a rational
  or one of the three non-finite values a computation of the program can meet
  (\<open>parseFloat\<close> yields \<open>NaN\<close> on a string with no numeric prefix and an infinity on
  the literal \<open>Infinity\<close>). In a transaction and in a trade a finite number \<open>q\<close> stands
  for the double nearest to \<open>q\<close>: the amounts of the feed are decimal numerals,
  \<open>parseFloat\<close> yields the value of a numeral and \<open>js_div\<close> the quotient of two values,
  where the program holds the doubles nearest to them. The sign of zero is not modelled.
  Where the program adds or multiplies numbers, or divides numbers it has computed (the
  sums and the statistics), the rounding of each operation shows in the result; there the
  model computes as the program does, with the arithmetic of doubles defined below.
\<close>

datatype jsnum = Fin rat | PInf | NInf | NaN

text \<open>Truthiness of a number: \<open>0\<close> and \<open>NaN\<close> are falsy.\<close>

fun js_truthy :: "jsnum \<Rightarrow> bool" where
  "js_truthy (Fin q) = (q \<noteq> 0)"
| "js_truthy NaN = False"
| "js_truthy PInf = True"
| "js_truthy NInf = True"

text \<open>The comparison \<open>a > b\<close>: false as soon as one side is \<open>NaN\<close>.\<close>

fun js_gt :: "jsnum \<Rightarrow> jsnum \<Rightarrow> bool" where
  "js_gt NaN b = False"
| "js_gt a NaN = False"
| "js_gt (Fin a) (Fin b) = (b < a)"
| "js_gt (Fin a) PInf = False"
| "js_gt (Fin a) NInf = True"
| "js_gt PInf PInf = False"
| "js_gt PInf b = True"
| "js_gt NInf b = False"

fun js_neg :: "jsnum \<Rightarrow> jsnum" where
  "js_neg (Fin a) = Fin (- a)"
| "js_neg PInf = NInf"
| "js_neg NInf = PInf"
| "js_neg NaN = NaN"

text \<open>
  Division of the values two numbers stand for; a zero divisor counts as positive zero.
\<close>

fun js_div :: "jsnum \<Rightarrow> jsnum \<Rightarrow> jsnum" where
  "js_div NaN b = NaN"
| "js_div a NaN = NaN"
| "js_div (Fin a) (Fin b) =
     (if b = 0 then (if a = 0 then NaN else if 0 < a then PInf else NInf) else Fin (a / b))"
| "js_div (Fin a) b = Fin 0"
| "js_div a (Fin b) = (if 0 \<le> b then a else js_neg a)"
| "js_div a b = NaN"

subsection \<open>The arithmetic of doubles\<close>

text \<open>
  IEEE 754 binary64, rounding to nearest, ties to even: \<open>toDouble q\<close> is the double
  nearest to the rational \<open>q\<close>. With \<open>2^e \<le> |q| < 2^(e+1)\<close> the doubles around \<open>q\<close> are
  the multiples of \<open>2^x\<close>, where \<open>x = max e (-1022) - 52\<close> (53 significant bits, and the
  fixed spacing \<open>2^-1074\<close> of the subnormal range); \<open>|q|\<close> is rounded to the nearest
  multiple, and a result of \<open>2^1024\<close> or more is an infinity.
\<close>

text \<open>The number of bits of a positive integer, and the powers of two.\<close>

function bitLength :: "int \<Rightarrow> int" where
  "bitLength n = (if n \<le> 0 then 0 else 1 + bitLength (n div 2))"
  by pat_completeness auto
termination
  by (relation "measure nat") auto

declare bitLength.simps [simp del]

function twoTo :: "int \<Rightarrow> int" where
  "twoTo k = (if k \<le> 0 then 1 else 2 * twoTo (k - 1))"
  by pat_completeness auto
termination
  by (relation "measure nat") auto

declare twoTo.simps [simp del]

text \<open>
  \<open>floorLog2 p d\<close> is the \<open>e\<close> with \<open>2^e \<le> p / d < 2^(e+1)\<close>, for positive \<open>p\<close> and \<open>d\<close>;
  \<open>roundHalfEven num den\<close> is the integer nearest to \<open>num / den\<close>, the even one of two.
\<close>

definition floorLog2 :: "int \<Rightarrow> int \<Rightarrow> int" where
  "floorLog2 p d =
     (let e = bitLength p - bitLength d
      in if (if 0 \<le> e then twoTo e * d \<le> p else d \<le> p * twoTo (- e)) then e else e - 1)"

definition roundHalfEven :: "int \<Rightarrow> int \<Rightarrow> int" where
  "roundHalfEven num den =
     (let f = num div den; r = num mod den
      in if 2 * r < den then f else if den < 2 * r then f + 1 else if even f then f else f + 1)"

definition toDouble :: "rat \<Rightarrow> jsnum" where
  "toDouble q =
     (if q = 0 then Fin 0
      else
        (let p = fst (quotient_of \<bar>q\<bar>);
             d = snd (quotient_of \<bar>q\<bar>);
             x = max (floorLog2 p d) (- 1022) - 52;
             n = (if 0 \<le> x then roundHalfEven p (d * twoTo x)
                  else roundHalfEven (p * twoTo (- x)) d)
         in if 971 < x \<or> (x = 971 \<and> twoTo 53 \<le> n) then (if q < 0 then NInf else PInf)
            else Fin ((if q < 0 then - 1 else 1) *
                      (if 0 \<le> x then of_int (n * twoTo x) else of_int n / of_int (twoTo (- x))))))"

text \<open>The double a number stands for.\<close>

definition asDouble :: "jsnum \<Rightarrow> jsnum" where
  "asDouble x = (case x of Fin q \<Rightarrow> toDouble q | _ \<Rightarrow> x)"

text \<open>
  The operations on doubles: the exact result, rounded. The rules for \<open>NaN\<close> and the
  infinities are those of IEEE 754.
\<close>

fun addDoubles :: "jsnum \<Rightarrow> jsnum \<Rightarrow> jsnum" where
  "addDoubles NaN b = NaN"
| "addDoubles a NaN = NaN"
| "addDoubles (Fin a) (Fin b) = toDouble (a + b)"
| "addDoubles PInf NInf = NaN"
| "addDoubles NInf PInf = NaN"
| "addDoubles PInf b = PInf"
| "addDoubles a PInf = PInf"
| "addDoubles NInf b = NInf"
| "addDoubles a NInf = NInf"

fun mulDoubles :: "jsnum \<Rightarrow> jsnum \<Rightarrow> jsnum" where
  "mulDoubles NaN b = NaN"
| "mulDoubles a NaN = NaN"
| "mulDoubles (Fin a) (Fin b) = toDouble (a * b)"
| "mulDoubles (Fin a) b = (if a = 0 then NaN else if 0 < a then b else js_neg b)"
| "mulDoubles a (Fin b) = (if b = 0 then NaN else if 0 < b then a else js_neg a)"
| "mulDoubles PInf b = b"
| "mulDoubles NInf b = js_neg b"

fun divDoubles :: "jsnum \<Rightarrow> jsnum \<Rightarrow> jsnum" where
  "divDoubles NaN b = NaN"
| "divDoubles a NaN = NaN"
| "divDoubles (Fin a) (Fin b) =
     (if b = 0 then (if a = 0 then NaN else if 0 < a then PInf else NInf) else toDouble (a / b))"
| "divDoubles (Fin a) b = Fin 0"
| "divDoubles a (Fin b) = (if 0 \<le> b then a else js_neg a)"
| "divDoubles a b = NaN"

text \<open>
  \<open>a + b\<close>, \<open>a * b\<close> and \<open>a / b\<close> as the program computes them: each operand is read as
  the double it stands for, and the result is a double.
\<close>

definition dbl_add :: "jsnum \<Rightarrow> jsnum \<Rightarrow> jsnum" where
  "dbl_add x y = addDoubles (asDouble x) (asDouble y)"

definition dbl_mul :: "jsnum \<Rightarrow> jsnum \<Rightarrow> jsnum" where
  "dbl_mul x y = mulDoubles (asDouble x) (asDouble y)"

definition dbl_div :: "jsnum \<Rightarrow> jsnum \<Rightarrow> jsnum" where
  "dbl_div x y = divDoubles (asDouble x) (asDouble y)"

text \<open>
  Strings are lists of characters; case mapping and white space are those of ASCII
  (the identifiers, mints and addresses the program handles are ASCII).
\<close>

definition isAsciiUpper :: "char \<Rightarrow> bool" where
  "isAsciiUpper c = (c \<in> set ''ABCDEFGHIJKLMNOPQRSTUVWXYZ'')"

definition isAsciiLower :: "char \<Rightarrow> bool" where
  "isAsciiLower c = (c \<in> set ''abcdefghijklmnopqrstuvwxyz'')"

definition isDigit :: "char \<Rightarrow> bool" where
  "isDigit c = (c \<in> set ''0123456789'')"

definition isWhiteSpace :: "char \<Rightarrow> bool" where
  "isWhiteSpace c = (c \<in> set [CHR 0x09, CHR 0x0A, CHR 0x0B, CHR 0x0C, CHR 0x0D, CHR 0x20])"

definition lowerChar :: "char \<Rightarrow> char" where
  "lowerChar c = (if isAsciiUpper c then char_of (of_char c + (32::nat)) else c)"

definition upperChar :: "char \<Rightarrow> char" where
  "upperChar c = (if isAsciiLower c then char_of (of_char c - (32::nat)) else c)"

definition toLowerCase :: "string \<Rightarrow> string" where
  "toLowerCase s = map lowerChar s"

definition toUpperCase :: "string \<Rightarrow> string" where
  "toUpperCase s = map upperChar s"

definition trim :: "string \<Rightarrow> string" where
  "trim s = rev (dropWhile isWhiteSpace (rev (dropWhile isWhiteSpace s)))"

text \<open>\<open>s.split(c)\<close> for a one-character separator: always at least one piece.\<close>

fun split :: "char \<Rightarrow> string \<Rightarrow> string list" where
  "split c [] = [[]]"
| "split c (x # xs) =
     (if x = c then [] # split c xs
      else (case split c xs of [] \<Rightarrow> [[x]] | p # ps \<Rightarrow> (x # p) # ps))"

text \<open>\<open>xs.join(sep)\<close>.\<close>

fun join :: "string \<Rightarrow> string list \<Rightarrow> string" where
  "join sep [] = []"
| "join sep [x] = x"
| "join sep (x # y # ys) = x @ sep @ join sep (y # ys)"

text \<open>\<open>s.replace(c, '')\<close> with a string pattern: only the first occurrence goes.\<close>

fun removeFirst :: "char \<Rightarrow> string \<Rightarrow> string" where
  "removeFirst c [] = []"
| "removeFirst c (x # xs) = (if x = c then xs else x # removeFirst c xs)"

text \<open>\<open>s.slice(-n)\<close>: the last \<open>n\<close> characters (all of them when there are fewer).\<close>

definition sliceLast :: "nat \<Rightarrow> string \<Rightarrow> string" where
  "sliceLast n s = drop (length s - n) s"

subsection \<open>parseFloat\<close>

definition digitValue :: "char \<Rightarrow> int" where
  "digitValue c = of_char c - 48"

definition digitsValue :: "string \<Rightarrow> int" where
  "digitsValue ds = foldl (\<lambda>acc c. 10 * acc + digitValue c) 0 ds"

text \<open>
  The exponent part of a decimal literal: \<open>e\<close> or \<open>E\<close>, an optional sign and at least
  one digit; anything else is not part of the number and counts as exponent zero.
\<close>

definition exponentPart :: "string \<Rightarrow> int" where
  "exponentPart s =
     (case s of
        [] \<Rightarrow> 0
      | e # r \<Rightarrow>
          if e = CHR ''e'' \<or> e = CHR ''E'' then
            (case r of
               [] \<Rightarrow> 0
             | sg # r' \<Rightarrow>
                 if sg = CHR ''-'' then
                   (if takeWhile isDigit r' = [] then 0 else - digitsValue (takeWhile isDigit r'))
                 else if sg = CHR ''+'' then digitsValue (takeWhile isDigit r')
                 else digitsValue (takeWhile isDigit r))
          else 0)"

definition scale10 :: "rat \<Rightarrow> int \<Rightarrow> rat" where
  "scale10 q e = (if 0 \<le> e then q * 10 ^ nat e else q / 10 ^ nat (- e))"

text \<open>
  \<open>parseFloat\<close>: leading white space is skipped, then the longest prefix that is a
  decimal literal is read (sign, \<open>Infinity\<close>, or digits with an optional fraction and
  exponent); with no such prefix the result is \<open>NaN\<close>.
\<close>

definition parseUnsigned :: "string \<Rightarrow> jsnum" where
  "parseUnsigned s =
     (if take 8 s = ''Infinity'' then PInf
      else
        (let ip = takeWhile isDigit s;
             r1 = dropWhile isDigit s;
             fp = (case r1 of [] \<Rightarrow> [] | d # r \<Rightarrow> if d = CHR ''.'' then takeWhile isDigit r else []);
             r2 = (case r1 of [] \<Rightarrow> [] | d # r \<Rightarrow> if d = CHR ''.'' then dropWhile isDigit r else r1)
         in if ip = [] \<and> fp = [] then NaN
            else Fin (scale10 (of_int (digitsValue (ip @ fp)) / 10 ^ length fp) (exponentPart r2))))"

definition parseFloat :: "string \<Rightarrow> jsnum" where
  "parseFloat s =
     (case dropWhile isWhiteSpace s of
        [] \<Rightarrow> NaN
      | c # r \<Rightarrow>
          if c = CHR ''-'' then js_neg (parseUnsigned r)
          else if c = CHR ''+'' then parseUnsigned r
          else parseUnsigned (c # r))"

subsection \<open>Formatting functions of the host\<close>

text \<open>
  \<open>Number.prototype.toString\<close>, \<open>Number.prototype.toFixed\<close> and
  \<open>Date.prototype.toLocaleString\<close> belong to the host, not to the repository (the last
  one depends on the locale of the machine). The program is modelled over any such host:
  every function that formats a number takes the host as its first argument.
\<close>

record runtime =
  numberToString :: "jsnum \<Rightarrow> string"
  toFixed :: "jsnum \<Rightarrow> nat \<Rightarrow> string"
  dateToLocaleString :: "jsnum \<Rightarrow> string"

text \<open>
  One concrete host, for evaluating the program on examples: numbers print in plain
  decimal notation (what ECMAScript prints for magnitudes from \<open>1e-6\<close> up to \<open>1e21\<close>),
  \<open>toFixed\<close> rounds half away from zero, and a date prints as its epoch milliseconds.
\<close>

definition digitChar :: "int \<Rightarrow> char" where
  "digitChar n = char_of (48 + n)"

function showDigits :: "int \<Rightarrow> string" where
  "showDigits n =
     (if n < 10 then [digitChar n] else showDigits (n div 10) @ [digitChar (n mod 10)])"
  by pat_completeness auto
termination
  by (relation "measure nat") auto

declare showDigits.simps [simp del]

fun fracDigits :: "nat \<Rightarrow> rat \<Rightarrow> string" where
  "fracDigits 0 f = []"
| "fracDigits (Suc k) f =
     (if f = 0 then []
      else digitChar \<lfloor>f * 10\<rfloor> # fracDigits k (f * 10 - of_int \<lfloor>f * 10\<rfloor>))"

definition plainNumberToString :: "jsnum \<Rightarrow> string" where
  "plainNumberToString x =
     (case x of
        NaN \<Rightarrow> ''NaN''
      | PInf \<Rightarrow> ''Infinity''
      | NInf \<Rightarrow> ''-Infinity''
      | Fin q \<Rightarrow>
          (if q < 0 then ''-'' else []) @ showDigits \<lfloor>\<bar>q\<bar>\<rfloor> @
          (if \<bar>q\<bar> = of_int \<lfloor>\<bar>q\<bar>\<rfloor> then []
           else ''.'' @ fracDigits 20 (\<bar>q\<bar> - of_int \<lfloor>\<bar>q\<bar>\<rfloor>)))"

definition plainToFixed :: "jsnum \<Rightarrow> nat \<Rightarrow> string" where
  "plainToFixed x d =
     (case x of
        Fin q \<Rightarrow>
          (let ds = showDigits \<lfloor>\<bar>q\<bar> * 10 ^ d + 1 / 2\<rfloor>;
               padded = replicate (Suc d - length ds) CHR ''0'' @ ds
           in (if q < 0 then ''-'' else []) @ take (length padded - d) padded @
              (if d = 0 then [] else ''.'' @ drop (length padded - d) padded))
      | _ \<Rightarrow> plainNumberToString x)"

definition sampleRuntime :: runtime where
  "sampleRuntime =
     \<lparr>numberToString = plainNumberToString, toFixed = plainToFixed,
      dateToLocaleString = plainNumberToString\<rparr>"

section \<open>The wallet analyzer\<close>

subsection \<open>The transaction feed\<close>

text \<open>
  A transaction of the feed arrives as untyped JSON. The fields the analyzer reads are
  modelled with the types the feed gives them; a field the code tests for presence is
  an \<open>option\<close>. Where two objects of the source have a field of the same name, one of
  them is renamed: \<open>rawAmount\<close> is the \<open>tokenAmount\<close> of a \<open>rawTokenAmount\<close> (a string
  of digits), \<open>nativeFrom\<close> and \<open>nativeTo\<close> are the \<open>fromUserAccount\<close> and
  \<open>toUserAccount\<close> of a native transfer, the fields of a transaction carry the prefix
  \<open>tx_\<close>, and \<open>trade_type\<close> and \<open>trade_source\<close> are the \<open>type\<close> and \<open>source\<close> of a
  \<open>TradeInfo\<close>.
\<close>

record rawTokenAmount =
  decimals :: "nat option"
  rawAmount :: "string option"

text \<open>
  The \<open>tokenAmount\<close> of a token transfer: the code asks for its type, so the model keeps
  whether it is missing, a number or a string.
\<close>

datatype amountField = NoAmount | NumberAmount jsnum | StringAmount string

record tokenTransfer =
  fromUserAccount :: "string option"
  toUserAccount :: "string option"
  mint :: "string option"
  rawTokenAmount :: "rawTokenAmount option"
  tokenAmount :: amountField

record nativeTransfer =
  nativeFrom :: "string option"
  nativeTo :: "string option"
  amount :: jsnum

record accountEntry =
  account :: string
  nativeBalanceChange :: jsnum

record rawTransaction =
  tx_timestamp :: jsnum
  tx_type :: string
  tx_signature :: string
  tx_source :: "string option"
  tokenTransfers :: "tokenTransfer list option"
  nativeTransfers :: "nativeTransfer list option"
  accountData :: "accountEntry list option"

record TradeInfo =
  timestamp :: jsnum
  trade_type :: string
  tokenIn :: "string option"
  tokenOut :: "string option"
  amountIn :: "jsnum option"
  amountOut :: "jsnum option"
  profitLoss :: "jsnum option"
  signature :: string
  trade_source :: "string option"

record WalletStats =
  totalTrades :: nat
  profitableTrades :: nat
  totalProfitLoss :: jsnum
  averageTradeSize :: jsnum
  largestTrade :: jsnum
  largestSOLTrade :: jsnum
  successRate :: jsnum
  tradeHistory :: "TradeInfo list"

definition WSOL :: string where
  "WSOL = ''So11111111111111111111111111111111111111112''"

definition EXCEPTION_MINT :: string where
  "EXCEPTION_MINT = ''GiwsvnWCAGs37hQAcuCC3GB4PxuUtMe7r4jc2E9Gpump''"

subsection \<open>extractSwapInfo\<close>

text \<open>\<open>s || dflt\<close> on an optional string: absent and empty are both falsy.\<close>

definition orString :: "string option \<Rightarrow> string \<Rightarrow> string" where
  "orString s dflt = (case s of None \<Rightarrow> dflt | Some v \<Rightarrow> if v = [] then dflt else v)"

text \<open>\<open>decimals || 6\<close>: absent and zero are both falsy.\<close>

definition decimalsOr6 :: "nat option \<Rightarrow> nat" where
  "decimalsOr6 d = (case d of None \<Rightarrow> 6 | Some n \<Rightarrow> if n = 0 then 6 else n)"

text \<open>The amount of the sold transfer (the \<open>if\<close> chain that sets \<open>amountIn\<close>).\<close>

definition soldAmount :: "tokenTransfer \<Rightarrow> jsnum" where
  "soldAmount t =
     (case rawTokenAmount t of
        Some r \<Rightarrow>
          js_div (parseFloat (orString (rawAmount r) ''0'')) (Fin (10 ^ decimalsOr6 (decimals r)))
      | None \<Rightarrow>
          (case tokenAmount t of
             NumberAmount n \<Rightarrow> n
           | StringAmount s \<Rightarrow> parseFloat s
           | NoAmount \<Rightarrow> Fin 0))"

text \<open>
  The raw amount string of the bought transfer:
  \<open>rawTokenAmount?.tokenAmount || tokenAmount.toString().replace('.', '')\<close>.
  \<open>None\<close> is the \<open>TypeError\<close> of calling \<open>toString\<close> on a missing amount.
\<close>

definition boughtRawAmount :: "runtime \<Rightarrow> tokenTransfer \<Rightarrow> string option" where
  "boughtRawAmount rt t =
     (let raw = (case rawTokenAmount t of None \<Rightarrow> None | Some r \<Rightarrow> rawAmount r)
      in if raw \<noteq> None \<and> raw \<noteq> Some [] then raw
         else
           (case tokenAmount t of
              NoAmount \<Rightarrow> None
            | NumberAmount n \<Rightarrow> Some (removeFirst CHR ''.'' (numberToString rt n))
            | StringAmount s \<Rightarrow> Some (removeFirst CHR ''.'' s)))"

text \<open>The sanity check on the bought amount.\<close>

definition sanityClamp :: "string option \<Rightarrow> jsnum \<Rightarrow> jsnum" where
  "sanityClamp m a =
     (if js_gt a (Fin 1000000) \<and> m \<noteq> Some EXCEPTION_MINT then js_div a (Fin 1000000) else a)"

definition boughtAmount :: "runtime \<Rightarrow> tokenTransfer \<Rightarrow> jsnum option" where
  "boughtAmount rt t =
     (let dec = decimalsOr6 (case rawTokenAmount t of None \<Rightarrow> None | Some r \<Rightarrow> decimals r)
      in case boughtRawAmount rt t of
           None \<Rightarrow> None
         | Some raw \<Rightarrow>
             Some (sanityClamp (mint t) (js_div (parseFloat raw) (Fin (10 ^ dec)))))"

text \<open>The profit and loss step, taken only when the transaction carries account data.\<close>

definition assignProfitLoss :: "rawTransaction \<Rightarrow> string \<Rightarrow> TradeInfo \<Rightarrow> TradeInfo" where
  "assignProfitLoss tx walletAddress tradeInfo =
     (case accountData tx of
        None \<Rightarrow> tradeInfo
      | Some ad \<Rightarrow>
          (case find (\<lambda>d. account d = walletAddress) ad of
             None \<Rightarrow> tradeInfo
           | Some walletAccountData \<Rightarrow>
               if js_gt (nativeBalanceChange walletAccountData) (Fin 0) then
                 tradeInfo\<lparr>profitLoss :=
                   Some (js_div (nativeBalanceChange walletAccountData) (Fin 1000000000))\<rparr>
               else if tokenOut tradeInfo = Some WSOL \<and> tokenIn tradeInfo \<noteq> Some WSOL then
                 tradeInfo\<lparr>profitLoss := Some (Fin (1 / 1000))\<rparr>
               else tradeInfo\<lparr>profitLoss := Some (Fin (- (1 / 1000)))\<rparr>))"

text \<open>\<open>transfers.reduce((sum, transfer) => sum + transfer.amount, 0)\<close>.\<close>

definition sumAmounts :: "nativeTransfer list \<Rightarrow> jsnum" where
  "sumAmounts ts = foldl (\<lambda>sum transfer. dbl_add sum (amount transfer)) (Fin 0) ts"

text \<open>
  \<open>extractSwapInfo\<close>; \<open>None\<close> is the \<open>null\<close> it returns, also from its \<open>catch\<close>.
\<close>

definition extractSwapInfo :: "runtime \<Rightarrow> rawTransaction \<Rightarrow> string \<Rightarrow> TradeInfo option" where
  "extractSwapInfo rt tx walletAddress =
     (let tradeInfo =
            \<lparr>timestamp = tx_timestamp tx, trade_type = ''SWAP'', tokenIn = None, tokenOut = None,
             amountIn = None, amountOut = None, profitLoss = None,
             signature = tx_signature tx,
             trade_source = Some (orString (tx_source tx) ''Unknown'')\<rparr>;
          tts = (case tokenTransfers tx of None \<Rightarrow> [] | Some l \<Rightarrow> l);
          nts = (case nativeTransfers tx of None \<Rightarrow> [] | Some l \<Rightarrow> l)
      in if tts \<noteq> [] then
           (let tokensSent = filter (\<lambda>transfer. fromUserAccount transfer = Some walletAddress) tts;
                tokensReceived = filter (\<lambda>transfer. toUserAccount transfer = Some walletAddress) tts;
                afterSold =
                  (case tokensSent of
                     [] \<Rightarrow> tradeInfo
                   | soldTransfer # _ \<Rightarrow>
                       tradeInfo\<lparr>tokenIn := mint soldTransfer,
                                 amountIn := Some (soldAmount soldTransfer)\<rparr>)
            in case tokensReceived of
                 [] \<Rightarrow> Some (assignProfitLoss tx walletAddress afterSold)
               | boughtTransfer # _ \<Rightarrow>
                   (case boughtAmount rt boughtTransfer of
                      None \<Rightarrow> None
                    | Some a \<Rightarrow>
                        Some (assignProfitLoss tx walletAddress
                                (afterSold\<lparr>tokenOut := mint boughtTransfer, amountOut := Some a\<rparr>))))
         else if nts \<noteq> [] then
           (let solReceived = filter (\<lambda>transfer. nativeTo transfer = Some walletAddress) nts;
                solSent = filter (\<lambda>transfer. nativeFrom transfer = Some walletAddress) nts
            in if solSent \<noteq> [] \<and> solReceived \<noteq> [] then
                 Some (tradeInfo\<lparr>tokenIn := Some ''SOL'', tokenOut := Some ''SOL'',
                         amountIn := Some (js_div (sumAmounts solSent) (Fin 1000000000)),
                         amountOut := Some (js_div (sumAmounts solReceived) (Fin 1000000000))\<rparr>)
               else None)
         else None)"

subsection \<open>analyzeWallet\<close>

definition initialStats :: WalletStats where
  "initialStats =
     \<lparr>totalTrades = 0, profitableTrades = 0, totalProfitLoss = Fin 0, averageTradeSize = Fin 0,
      largestTrade = Fin 0, largestSOLTrade = Fin 0, successRate = Fin 0, tradeHistory = []\<rparr>"

text \<open>The updates of the loop body for one extracted trade, in the order of the code.\<close>

definition recordTrade :: "WalletStats \<Rightarrow> TradeInfo \<Rightarrow> WalletStats" where
  "recordTrade stats tradeInfo =
     (let s1 = stats\<lparr>tradeHistory := tradeHistory stats @ [tradeInfo],
                     totalTrades := Suc (totalTrades stats)\<rparr>;
          s2 = (case profitLoss tradeInfo of
                  None \<Rightarrow> s1
                | Some p \<Rightarrow>
                    if js_truthy p \<and> js_gt p (Fin 0)
                    then s1\<lparr>profitableTrades := Suc (profitableTrades s1),
                            totalProfitLoss := dbl_add (totalProfitLoss s1) p\<rparr>
                    else s1);
          s3 = (case amountIn tradeInfo of
                  None \<Rightarrow> s2
                | Some a \<Rightarrow>
                    if tokenIn tradeInfo = Some WSOL \<and> js_truthy a \<and> js_gt a (largestSOLTrade s2)
                    then s2\<lparr>largestSOLTrade := a\<rparr> else s2)
      in (case amountIn tradeInfo of
            None \<Rightarrow> s3
          | Some a \<Rightarrow>
              if js_truthy a \<and> js_gt a (largestTrade s3) then s3\<lparr>largestTrade := a\<rparr> else s3))"

text \<open>The loop over the fetched transactions.\<close>

fun processTransactions ::
  "runtime \<Rightarrow> string \<Rightarrow> WalletStats \<Rightarrow> rawTransaction list \<Rightarrow> WalletStats" where
  "processTransactions rt walletAddress stats [] = stats"
| "processTransactions rt walletAddress stats (tx # txs) =
     (if tx_type tx = ''SWAP'' then
        (case extractSwapInfo rt tx walletAddress of
           Some tradeInfo \<Rightarrow> processTransactions rt walletAddress (recordTrade stats tradeInfo) txs
         | None \<Rightarrow> processTransactions rt walletAddress stats txs)
      else processTransactions rt walletAddress stats txs)"

definition finalStats :: "WalletStats \<Rightarrow> WalletStats" where
  "finalStats stats =
     (if 0 < totalTrades stats then
        stats\<lparr>successRate :=
                 dbl_mul
                   (dbl_div (Fin (of_nat (profitableTrades stats))) (Fin (of_nat (totalTrades stats))))
                   (Fin 100),
              averageTradeSize :=
                 dbl_div (totalProfitLoss stats) (Fin (of_nat (totalTrades stats)))\<rparr>
      else stats)"

text \<open>
  \<open>analyzeWallet\<close>, over the outcome of the fetch: \<open>Inl\<close> carries the message of the
  error the request raised, \<open>Inr\<close> the transactions of the response.
\<close>

definition analyzeWallet ::
  "runtime \<Rightarrow> string + rawTransaction list \<Rightarrow> string \<Rightarrow> string + WalletStats" where
  "analyzeWallet rt fetched walletAddress =
     (case fetched of
        Inl message \<Rightarrow> Inl (''Failed to analyze wallet transactions: '' @ message)
      | Inr transactions \<Rightarrow>
          Inr (finalStats (processTransactions rt walletAddress initialStats transactions)))"

subsection \<open>generateEndOfDayReport\<close>

text \<open>
  The lookup in the three-entry token table. (The table is a plain object, so the names
  of \<open>Object.prototype\<close> members would also be found in it; a mint is a base58 address
  and is none of them.)
\<close>

definition tokenMap :: "string \<Rightarrow> string option" where
  "tokenMap m =
     (if m = ''So11111111111111111111111111111111111111112'' then Some ''SOL''
      else if m = ''EPjFWdd5AufqSSqeM2qN1xzybapC8G4wEGGkZwyTDt1v'' then Some ''USDC''
      else if m = ''Es9vMFrzaCERmJfrF4H2FYD4KCoNkY11McCe8BenwNYB'' then Some ''USDT''
      else None)"

definition formatToken :: "string option \<Rightarrow> string" where
  "formatToken m =
     (case m of
        None \<Rightarrow> ''Unknown''
      | Some mt \<Rightarrow>
          if mt = [] then ''Unknown''
          else (case tokenMap mt of
                  Some n \<Rightarrow> n
                | None \<Rightarrow> take 4 mt @ ''...'' @ sliceLast 4 mt))"

text \<open>\<open>amount?.toFixed(6) || 'Unknown'\<close>.\<close>

definition formatAmount :: "runtime \<Rightarrow> jsnum option \<Rightarrow> string" where
  "formatAmount rt a =
     (case a of
        None \<Rightarrow> ''Unknown''
      | Some x \<Rightarrow> if toFixed rt x 6 = [] then ''Unknown'' else toFixed rt x 6)"

text \<open>The arrow of the template, U+2192, as its three bytes in UTF-8.\<close>

definition arrow :: string where
  "arrow = [CHR 0xE2, CHR 0x86, CHR 0x92]"

definition renderTrade :: "runtime \<Rightarrow> TradeInfo \<Rightarrow> string" where
  "renderTrade rt trade =
     dateToLocaleString rt (dbl_mul (timestamp trade) (Fin 1000)) @ [CHR 0x0A] @
     ''   '' @ formatToken (tokenIn trade) @ '' '' @ arrow @ '' '' @ formatToken (tokenOut trade) @
     [CHR 0x0A] @
     ''   Amount: '' @ formatAmount rt (amountIn trade) @ '' '' @ arrow @ '' '' @
     formatAmount rt (amountOut trade) @ [CHR 0x0A] @
     ''   Source: '' @ orString (trade_source trade) ''Unknown'' @ [CHR 0x0A] @ ''  ''"

definition formatReport :: "runtime \<Rightarrow> WalletStats \<Rightarrow> string \<Rightarrow> string" where
  "formatReport rt stats walletAddress =
     ([CHR 0x0A] @ ''=== Solana Wallet Trading Report ==='' @ [CHR 0x0A] @ ''Wallet: '') @
     walletAddress @
     ([CHR 0x0A] @ ''Total Swaps: '' @ numberToString rt (Fin (of_nat (totalTrades stats))) @
      [CHR 0x0A] @ ''Profitable Trades: '' @
      numberToString rt (Fin (of_nat (profitableTrades stats))) @
      [CHR 0x0A] @ ''Success Rate: '' @ toFixed rt (successRate stats) 2 @ ''%'' @
      [CHR 0x0A] @ ''Total P/L: '' @ toFixed rt (totalProfitLoss stats) 4 @ '' SOL'' @
      [CHR 0x0A] @ ''Average Trade Size: '' @ toFixed rt (averageTradeSize stats) 4 @ '' SOL'' @
      [CHR 0x0A] @ ''Largest SOL Trade: '' @ toFixed rt (largestSOLTrade stats) 4 @ '' SOL'' @
      [CHR 0x0A] @ [CHR 0x0A] @ ''Recent Trades:'' @ [CHR 0x0A] @
      join [CHR 0x0A] (map (renderTrade rt) (take 5 (tradeHistory stats))) @ [CHR 0x0A])"

text \<open>
  \<open>generateEndOfDayReport\<close>: the error of \<open>analyzeWallet\<close> is caught and rendered;
  nothing in the template can raise on a value of type \<open>WalletStats\<close>.
\<close>

definition generateEndOfDayReport ::
  "runtime \<Rightarrow> string + rawTransaction list \<Rightarrow> string \<Rightarrow> string" where
  "generateEndOfDayReport rt fetched walletAddress =
     (case analyzeWallet rt fetched walletAddress of
        Inr stats \<Rightarrow> formatReport rt stats walletAddress
      | Inl message \<Rightarrow>
          ''Error generating report: Error: '' @ message @
          ''. Try checking only the last few transactions.'')"

section \<open>The price resolver\<close>

subsection \<open>Quotes, the cache and the providers\<close>

record CryptoPrice =
  name :: string
  symbol :: string
  price :: jsnum
  currency :: string
  source :: string

text \<open>An entry of \<open>priceCache\<close>: the quote and \<open>Date.now()\<close> at the time it was stored.\<close>

record cacheEntry =
  data :: CryptoPrice
  entry_timestamp :: int

text \<open>
  \<open>priceCache\<close> is a plain object used as a dictionary. (A key that names a member of
  \<open>Object.prototype\<close> reads a value with no \<open>timestamp\<close>, the age test is then false
  and the lookup misses, as for a key that was never stored.)
\<close>

type_synonym priceCache = "string \<rightharpoonup> cacheEntry"

definition CACHE_TTL :: int where
  "CACHE_TTL = 60000"

definition POPULAR_CRYPTOS :: "string list" where
  "POPULAR_CRYPTOS =
     [''bitcoin'', ''ethereum'', ''solana'', ''cardano'',
      ''dogecoin'', ''xrp'', ''polkadot'', ''shiba-inu'',
      ''bnb'', ''tron'', ''litecoin'', ''polygon'', ''avalanche-2'']"

text \<open>
  The outcome of one \<open>axios.get\<close>: the promise is rejected (network error, timeout, a
  status the client refuses), or it resolves to a status and a payload.
\<close>

datatype 'a axios = Rejected | Response int 'a

record coinCapAsset =
  asset_name :: string
  asset_symbol :: string
  priceUsd :: "string option"

datatype provider = CoinGecko | CoinCap | CryptoCompare

text \<open>
  What the outside world answers during one call of \<open>getCryptoPrice\<close>: the two readings
  of the clock (at the cache test and at the cache update) and, for each provider, the
  outcome of a request as a function of the identifier requested. The payloads keep the
  fields the code reads: the \<open>usd\<close> price by identifier, the asset of the second provider,
  the \<open>USD\<close> price of the third.
\<close>

record apiEnv =
  nowAtCheck :: int
  nowAtStore :: int
  coingecko :: "string \<Rightarrow> (string \<rightharpoonup> jsnum) axios"
  coincap :: "string \<Rightarrow> coinCapAsset option axios"
  cryptocompare :: "string \<Rightarrow> jsnum option axios"

subsection \<open>getCryptoPrice\<close>

text \<open>The cache test: an entry exists and its age is below the time to live.\<close>

definition cacheLookup :: "int \<Rightarrow> priceCache \<Rightarrow> string \<Rightarrow> CryptoPrice option" where
  "cacheLookup now priceCache ident =
     (case priceCache ident of
        None \<Rightarrow> None
      | Some entry \<Rightarrow> if now - entry_timestamp entry < CACHE_TTL then Some (data entry) else None)"

text \<open>\<open>id.charAt(0).toUpperCase() + id.slice(1).replace(/-/g, ' ')\<close>.\<close>

definition displayName :: "string \<Rightarrow> string" where
  "displayName ident =
     (case ident of
        [] \<Rightarrow> []
      | c # r \<Rightarrow> upperChar c # map (\<lambda>x. if x = CHR ''-'' then CHR '' '' else x) r)"

text \<open>\<open>parseFloat(parseFloat(v).toFixed(2))\<close> on the string form of the price.\<close>

definition roundPrice :: "runtime \<Rightarrow> string \<Rightarrow> jsnum" where
  "roundPrice rt v = parseFloat (toFixed rt (parseFloat v) 2)"

definition geckoName :: "string \<Rightarrow> string" where
  "geckoName ident =
     (if ident = ''bitcoin'' then ''Bitcoin''
      else if ident = ''ethereum'' then ''Ethereum''
      else if ident = ''solana'' then ''Solana''
      else if ident = ''cardano'' then ''Cardano''
      else if ident = ''dogecoin'' then ''Dogecoin''
      else if ident = ''xrp'' then ''XRP''
      else if ident = ''polkadot'' then ''Polkadot''
      else if ident = ''litecoin'' then ''Litecoin''
      else displayName ident)"

definition geckoSymbol :: "string \<Rightarrow> string" where
  "geckoSymbol ident =
     (if ident = ''bitcoin'' then ''BTC''
      else if ident = ''ethereum'' then ''ETH''
      else if ident = ''solana'' then ''SOL''
      else if ident = ''cardano'' then ''ADA''
      else if ident = ''dogecoin'' then ''DOGE''
      else if ident = ''xrp'' then ''XRP''
      else if ident = ''polkadot'' then ''DOT''
      else if ident = ''litecoin'' then ''LTC''
      else filter (\<lambda>c. c \<noteq> CHR ''-'') (toUpperCase ident))"

text \<open>
  The three attempts. \<open>None\<close> is every way an attempt leaves its \<open>try\<close> block without
  a result: a rejected request, a status other than 200, a missing or falsy price.
\<close>

definition fetchCoinGecko :: "runtime \<Rightarrow> apiEnv \<Rightarrow> string \<Rightarrow> CryptoPrice option" where
  "fetchCoinGecko rt env ident =
     (case coingecko env ident of
        Rejected \<Rightarrow> None
      | Response status payload \<Rightarrow>
          (case payload ident of
             None \<Rightarrow> None
           | Some usd \<Rightarrow>
               if status = 200 \<and> js_truthy usd then
                 Some \<lparr>name = geckoName ident, symbol = geckoSymbol ident,
                       price = roundPrice rt (numberToString rt usd),
                       currency = ''USD'', source = ''coingecko-api''\<rparr>
               else None))"

definition fetchCoinCap :: "runtime \<Rightarrow> apiEnv \<Rightarrow> string \<Rightarrow> CryptoPrice option" where
  "fetchCoinCap rt env ident =
     (case coincap env ident of
        Rejected \<Rightarrow> None
      | Response status payload \<Rightarrow>
          (case payload of
             None \<Rightarrow> None
           | Some asset \<Rightarrow>
               (case priceUsd asset of
                  None \<Rightarrow> None
                | Some p \<Rightarrow>
                    if status = 200 \<and> p \<noteq> [] then
                      Some \<lparr>name = asset_name asset, symbol = asset_symbol asset,
                            price = roundPrice rt p,
                            currency = ''USD'', source = ''coincap-api''\<rparr>
                    else None)))"

definition symbolGuess :: "string \<Rightarrow> string" where
  "symbolGuess ident =
     (if CHR ''-'' \<in> set ident
      then (case split CHR ''-'' ident of [] \<Rightarrow> [] | p # _ \<Rightarrow> toUpperCase p)
      else toUpperCase ident)"

definition fetchCryptoCompare :: "runtime \<Rightarrow> apiEnv \<Rightarrow> string \<Rightarrow> CryptoPrice option" where
  "fetchCryptoCompare rt env ident =
     (case cryptocompare env (symbolGuess ident) of
        Rejected \<Rightarrow> None
      | Response status payload \<Rightarrow>
          (case payload of
             None \<Rightarrow> None
           | Some usd \<Rightarrow>
               if status = 200 \<and> js_truthy usd then
                 Some \<lparr>name = displayName ident, symbol = symbolGuess ident,
                       price = roundPrice rt (numberToString rt usd),
                       currency = ''USD'', source = ''cryptocompare-api''\<rparr>
               else None))"

definition errorMessage :: "string \<Rightarrow> string" where
  "errorMessage cryptoId =
     (''Could not get price for '' @ [CHR 0x22]) @ cryptoId @
     ([CHR 0x22] @ '' from any of the APIs. Try one of these: '' @
      join '', '' (take 5 POPULAR_CRYPTOS) @ ''...'')"

text \<open>
  \<open>getCryptoPrice\<close>: the result (\<open>Inl\<close> is the \<open>{ error }\<close> object), the cache afterwards
  and the providers that were requested, in the order of the requests.
\<close>

definition getCryptoPrice ::
  "runtime \<Rightarrow> apiEnv \<Rightarrow> priceCache \<Rightarrow> string \<Rightarrow> (string + CryptoPrice) \<times> priceCache \<times> provider list"
  where
  "getCryptoPrice rt env priceCache cryptoId =
     (let ident = trim (toLowerCase cryptoId) in
      case cacheLookup (nowAtCheck env) priceCache ident of
        Some cached \<Rightarrow> (Inr cached, priceCache, [])
      | None \<Rightarrow>
          (case fetchCoinGecko rt env ident of
             Some result \<Rightarrow>
               (Inr result,
                priceCache(ident \<mapsto> \<lparr>data = result, entry_timestamp = nowAtStore env\<rparr>),
                [CoinGecko])
           | None \<Rightarrow>
               (case fetchCoinCap rt env ident of
                  Some result \<Rightarrow>
                    (Inr result,
                     priceCache(ident \<mapsto> \<lparr>data = result, entry_timestamp = nowAtStore env\<rparr>),
                     [CoinGecko, CoinCap])
                | None \<Rightarrow>
                    (case fetchCryptoCompare rt env ident of
                       Some result \<Rightarrow>
                         (Inr result,
                          priceCache(ident \<mapsto> \<lparr>data = result, entry_timestamp = nowAtStore env\<rparr>),
                          [CoinGecko, CoinCap, CryptoCompare])
                     | None \<Rightarrow>
                         (Inl (errorMessage cryptoId), priceCache,
                          [CoinGecko, CoinCap, CryptoCompare])))))"

subsection \<open>getMultipleCryptoPrices\<close>

definition priceLine :: "runtime \<Rightarrow> CryptoPrice \<Rightarrow> string" where
  "priceLine rt result =
     name result @ '' ('' @ symbol result @ ''): $'' @ numberToString rt (price result) @ '' '' @
     currency result @ '' [Source: '' @ source result @ '']''"

definition resultLine :: "runtime \<Rightarrow> string \<Rightarrow> string + CryptoPrice \<Rightarrow> string" where
  "resultLine rt cryptoId result =
     (case result of
        Inl err \<Rightarrow> cryptoId @ '': '' @ err
      | Inr quote \<Rightarrow> priceLine rt quote)"

text \<open>
  The loop of the tool: one call of \<open>getCryptoPrice\<close> after the other, each in the
  environment of its own moment, the cache handed from one call to the next.
\<close>

fun resolveAll ::
  "runtime \<Rightarrow> priceCache \<Rightarrow> (apiEnv \<times> string) list \<Rightarrow> string list \<times> priceCache" where
  "resolveAll rt priceCache [] = ([], priceCache)"
| "resolveAll rt priceCache ((env, cryptoId) # rest) =
     (case getCryptoPrice rt env priceCache cryptoId of
        (result, cache', calls) \<Rightarrow>
          (case resolveAll rt cache' rest of
             (results, cache'') \<Rightarrow> (resultLine rt cryptoId result # results, cache'')))"

text \<open>The identifiers of a request, each paired with the environment of its turn.\<close>

definition requestedIds :: "string \<Rightarrow> string list" where
  "requestedIds cryptoIds = map trim (split CHR '','' cryptoIds)"

definition turns :: "(nat \<Rightarrow> apiEnv) \<Rightarrow> string \<Rightarrow> (apiEnv \<times> string) list" where
  "turns envs cryptoIds =
     zip (map envs [0..<length (requestedIds cryptoIds)]) (requestedIds cryptoIds)"

text \<open>The \<open>results\<close> array of the tool, and the text it answers with.\<close>

definition priceLines :: "runtime \<Rightarrow> (nat \<Rightarrow> apiEnv) \<Rightarrow> priceCache \<Rightarrow> string \<Rightarrow> string list" where
  "priceLines rt envs priceCache cryptoIds = fst (resolveAll rt priceCache (turns envs cryptoIds))"

definition getMultipleCryptoPrices ::
  "runtime \<Rightarrow> (nat \<Rightarrow> apiEnv) \<Rightarrow> priceCache \<Rightarrow> string \<Rightarrow> string" where
  "getMultipleCryptoPrices rt envs priceCache cryptoIds =
     join [CHR 0x0A] (priceLines rt envs priceCache cryptoIds)"

section \<open>Notions used to state the properties\<close>

text \<open>The trades \<open>analyzeWallet\<close> extracts from a feed: one per swap that yields a record.\<close>

definition extractedTrades :: "runtime \<Rightarrow> string \<Rightarrow> rawTransaction list \<Rightarrow> TradeInfo list" where
  "extractedTrades rt walletAddress txs =
     List.map_filter
       (\<lambda>tx. if tx_type tx = ''SWAP'' then extractSwapInfo rt tx walletAddress else None) txs"

text \<open>A trade with a profit: its \<open>profitLoss\<close> is present and greater than zero.\<close>

definition isProfitable :: "TradeInfo \<Rightarrow> bool" where
  "isProfitable t = (case profitLoss t of None \<Rightarrow> False | Some p \<Rightarrow> js_gt p (Fin 0))"

definition positiveProfits :: "TradeInfo list \<Rightarrow> jsnum list" where
  "positiveProfits ts = filter (\<lambda>p. js_gt p (Fin 0)) (List.map_filter profitLoss ts)"

text \<open>
  The sum of a list of numbers as the program adds them: from zero, from left to right,
  each addition rounded to a double.
\<close>

definition dbl_sum :: "jsnum list \<Rightarrow> jsnum" where
  "dbl_sum xs = foldl dbl_add (Fin 0) xs"

text \<open>The amounts sold that are present in a list of trades.\<close>

definition amountsIn :: "TradeInfo list \<Rightarrow> jsnum list" where
  "amountsIn ts = List.map_filter amountIn ts"

text \<open>
  \<open>m\<close> is the largest of the amounts \<open>xs\<close>, zero counting as an amount (the statistics
  start from zero): \<open>m\<close> is a number, it is zero or one of the amounts, and neither zero
  nor any amount is greater.
\<close>

definition isLargest :: "jsnum \<Rightarrow> jsnum list \<Rightarrow> bool" where
  "isLargest m xs =
     (m \<noteq> NaN \<and> (m = Fin 0 \<or> m \<in> set xs) \<and> list_all (\<lambda>a. \<not> js_gt a m) (Fin 0 # xs))"

text \<open>One step of the running maximum of the loop.\<close>

definition pickLarger :: "jsnum \<Rightarrow> jsnum \<Rightarrow> jsnum" where
  "pickLarger m a = (if js_truthy a \<and> js_gt a m then a else m)"

section \<open>Example inputs\<close>

subsection \<open>Transactions of the wallet \<open>wallet\<close>\<close>

definition plainTx :: "tokenTransfer list \<Rightarrow> rawTransaction" where
  "plainTx tts =
     \<lparr>tx_timestamp = Fin 1700000000, tx_type = ''SWAP'', tx_signature = ''5sig'',
      tx_source = Some ''JUPITER'', tokenTransfers = Some tts, nativeTransfers = None,
      accountData = None\<rparr>"

definition rawSold :: tokenTransfer where
  "rawSold =
     \<lparr>fromUserAccount = Some ''wallet'', toUserAccount = Some ''pool'', mint = Some ''mintA'',
      rawTokenAmount = Some \<lparr>decimals = Some 0, rawAmount = Some ''2500000''\<rparr>,
      tokenAmount = NumberAmount (Fin (5 / 2))\<rparr>"

definition rawBought :: tokenTransfer where
  "rawBought =
     \<lparr>fromUserAccount = Some ''pool'', toUserAccount = Some ''wallet'', mint = Some ''mintB'',
      rawTokenAmount = Some \<lparr>decimals = Some 0, rawAmount = Some ''10000000''\<rparr>,
      tokenAmount = NumberAmount (Fin 10)\<rparr>"

definition zeroDecimalsTx :: rawTransaction where
  "zeroDecimalsTx = plainTx [rawSold, rawBought]"

definition numericSold :: tokenTransfer where
  "numericSold =
     \<lparr>fromUserAccount = Some ''wallet'', toUserAccount = Some ''pool'', mint = Some ''mintA'',
      rawTokenAmount = None, tokenAmount = NumberAmount (Fin 10)\<rparr>"

definition numericBought :: tokenTransfer where
  "numericBought =
     \<lparr>fromUserAccount = Some ''pool'', toUserAccount = Some ''wallet'', mint = Some ''mintB'',
      rawTokenAmount = None, tokenAmount = NumberAmount (Fin 10)\<rparr>"

definition numericTx :: rawTransaction where
  "numericTx = plainTx [numericSold, numericBought]"

text \<open>A swap between two other accounts.\<close>

definition strangerTx :: rawTransaction where
  "strangerTx =
     plainTx [\<lparr>fromUserAccount = Some ''alice'', toUserAccount = Some ''bob'', mint = Some ''mintA'',
               rawTokenAmount = None, tokenAmount = NumberAmount (Fin 1)\<rparr>]"

text \<open>A swap of the wallet that carries no account data.\<close>

definition noAccountDataTx :: rawTransaction where
  "noAccountDataTx = plainTx [rawSold]"

text \<open>A swap that leaves the wallet 5000000 lamports richer.\<close>

definition profitTx :: rawTransaction where
  "profitTx =
     (plainTx [rawSold, rawBought])
       \<lparr>accountData :=
          Some [\<lparr>account = ''pool'', nativeBalanceChange = Fin (- 5000000)\<rparr>,
                \<lparr>account = ''wallet'', nativeBalanceChange = Fin 5000000\<rparr>]\<rparr>"

definition sampleFeed :: "rawTransaction list" where
  "sampleFeed = [profitTx, noAccountDataTx, profitTx\<lparr>tx_type := ''TRANSFER''\<rparr>]"

text \<open>A swap whose account data gives the wallet a balance change of \<open>delta\<close> lamports.\<close>

definition gainTx :: "rat \<Rightarrow> rawTransaction" where
  "gainTx delta =
     (plainTx [rawSold, rawBought])
       \<lparr>accountData := Some [\<lparr>account = ''wallet'', nativeBalanceChange = Fin delta\<rparr>]\<rparr>"

text \<open>Twenty swaps, eleven of them with a gain.\<close>

definition twentySwaps :: "rawTransaction list" where
  "twentySwaps = replicate 11 (gainTx 5000000) @ replicate 9 noAccountDataTx"

text \<open>Three swaps with gains of 0.1, 0.2 and 0.3 units of the native currency.\<close>

definition tenthsFeed :: "rawTransaction list" where
  "tenthsFeed = [gainTx 100000000, gainTx 200000000, gainTx 300000000]"

text \<open>
  A feed for the report: six swaps of the wallet with different time stamps, and a
  transfer that is no swap. The first swap sells wrapped native token for a stablecoin,
  the second has no transfer received and no source, the third does not involve the
  wallet, the fourth has no transfer sent, the fifth moves native currency only.
\<close>

definition reportFeed :: "rawTransaction list" where
  "reportFeed =
     [\<lparr>tx_timestamp = Fin 1700000001, tx_type = ''SWAP'', tx_signature = ''sig1'',
       tx_source = Some ''JUPITER'',
       tokenTransfers =
         Some [\<lparr>fromUserAccount = Some ''wallet'', toUserAccount = Some ''pool'',
                mint = Some ''So11111111111111111111111111111111111111112'',
                rawTokenAmount = Some \<lparr>decimals = Some 9, rawAmount = Some ''1500000000''\<rparr>,
                tokenAmount = NumberAmount (Fin (3 / 2))\<rparr>,
               \<lparr>fromUserAccount = Some ''pool'', toUserAccount = Some ''wallet'',
                mint = Some ''EPjFWdd5AufqSSqeM2qN1xzybapC8G4wEGGkZwyTDt1v'',
                rawTokenAmount = Some \<lparr>decimals = Some 6, rawAmount = Some ''30000000''\<rparr>,
                tokenAmount = NumberAmount (Fin 30)\<rparr>],
       nativeTransfers = None, accountData = None\<rparr>,
      \<lparr>tx_timestamp = Fin 1700000002, tx_type = ''SWAP'', tx_signature = ''sig2'',
       tx_source = None, tokenTransfers = Some [rawSold], nativeTransfers = None,
       accountData = None\<rparr>,
      \<lparr>tx_timestamp = Fin 1700000003, tx_type = ''TRANSFER'', tx_signature = ''sig3'',
       tx_source = Some ''SYSTEM'', tokenTransfers = Some [rawSold, rawBought],
       nativeTransfers = None, accountData = None\<rparr>,
      strangerTx\<lparr>tx_timestamp := Fin 1700000004\<rparr>,
      \<lparr>tx_timestamp = Fin 1700000005, tx_type = ''SWAP'', tx_signature = ''sig5'',
       tx_source = Some ''RAYDIUM'', tokenTransfers = Some [numericBought],
       nativeTransfers = None, accountData = None\<rparr>,
      \<lparr>tx_timestamp = Fin 1700000006, tx_type = ''SWAP'', tx_signature = ''sig6'',
       tx_source = Some ''SYSTEM'', tokenTransfers = None,
       nativeTransfers =
         Some [\<lparr>nativeFrom = Some ''wallet'', nativeTo = Some ''pool'', amount = Fin 2000000000\<rparr>,
               \<lparr>nativeFrom = Some ''pool'', nativeTo = Some ''wallet'', amount = Fin 1000000000\<rparr>],
       accountData = None\<rparr>,
      (plainTx [rawSold, rawBought])\<lparr>tx_timestamp := Fin 1700000007\<rparr>]"

subsection \<open>Moments of the price providers\<close>

text \<open>Every provider rejects the request.\<close>

definition allDown :: "int \<Rightarrow> apiEnv" where
  "allDown now =
     \<lparr>nowAtCheck = now, nowAtStore = now + 1,
      coingecko = (\<lambda>ident. Rejected), coincap = (\<lambda>ident. Rejected),
      cryptocompare = (\<lambda>sym. Rejected)\<rparr>"

text \<open>The first provider answers with a price for bitcoin.\<close>

definition geckoUp :: "int \<Rightarrow> apiEnv" where
  "geckoUp now =
     (allDown now)
       \<lparr>coingecko := (\<lambda>ident. Response 200 [''bitcoin'' \<mapsto> Fin (64000129 / 1000)])\<rparr>"

text \<open>Only the second provider answers.\<close>

definition coinCapUp :: "int \<Rightarrow> apiEnv" where
  "coinCapUp now =
     (allDown now)
       \<lparr>coincap := (\<lambda>ident. Response 200
          (Some \<lparr>asset_name = ''Bitcoin'', asset_symbol = ''BTC'', priceUsd = Some ''64000.129''\<rparr>))\<rparr>"



text \<open>A request for two identifiers: the first provider answers during the first turn only.\<close>

definition batchEnvs :: "nat \<Rightarrow> apiEnv" where
  "batchEnvs i = (if i = 0 then geckoUp 1000 else allDown 2000)"

section \<open>Properties of the wallet analyzer\<close>

subsection \<open>Amounts of a swap\<close>

lemma assignProfitLoss_keeps:
  "amountIn (assignProfitLoss tx w ti) = amountIn ti"
  "amountOut (assignProfitLoss tx w ti) = amountOut ti"
  "tokenIn (assignProfitLoss tx w ti) = tokenIn ti"
  "tokenOut (assignProfitLoss tx w ti) = tokenOut ti"
  by (simp_all add: assignProfitLoss_def split: option.splits)

text \<open>
  What the code computes for a transfer with a numeric amount and no raw amount: the
  number itself when the transfer is the one sold; when it is the one bought, the digits
  of the printed number with the first decimal point removed, divided by \<open>10^6\<close>.
\<close>

lemma numeric_amount_sold_and_bought:
  assumes "rawTokenAmount t = None" and "tokenAmount t = NumberAmount n"
  shows "soldAmount t = n"
    and "boughtAmount rt t =
      Some (sanityClamp (mint t)
             (js_div (parseFloat (removeFirst CHR ''.'' (numberToString rt n))) (Fin (10 ^ 6))))"
  using assms
  by (simp_all add: soldAmount_def boughtAmount_def boughtRawAmount_def decimalsOr6_def)

text \<open>
  Claim C5. The amount bought is meant to follow the priority rule of the amount sold:
  with no raw amount, a numeric \<open>tokenAmount\<close> is the amount. The code does this for
  the sold transfer only. For the bought one it prints the number, drops the decimal
  point and divides by \<open>10^6\<close>: in \<open>numericTx\<close> both transfers carry the number 10 and
  no raw amount; the amount sold is 10, the amount bought is 0.00001.
\<close>

theorem bought_numeric_amount_rescaled:
  "extractSwapInfo sampleRuntime numericTx ''wallet'' =
     Some \<lparr>timestamp = Fin 1700000000, trade_type = ''SWAP'', tokenIn = Some ''mintA'',
           tokenOut = Some ''mintB'', amountIn = Some (Fin 10),
           amountOut = Some (Fin (1 / 100000)), profitLoss = None, signature = ''5sig'',
           trade_source = Some ''JUPITER''\<rparr>"
  by code_simp

text \<open>
  Claim C10. A raw amount whose \<open>decimals\<close> is 0 is scaled like one with no
  \<open>decimals\<close>: the raw integer is divided by \<open>10^6\<close>. This holds for the amount sold
  and for the amount bought (before its sanity check), and so for the \<open>amountIn\<close> and
  \<open>amountOut\<close> of the trade when the transfer is the first one sent, or received, by the
  wallet.
\<close>

theorem zero_decimals_default_six:
  assumes "tokenTransfers tx = Some tts"
    and "rawTokenAmount t = Some r" and "decimals r = Some 0"
    and "rawAmount r = Some s" and "s \<noteq> []"
  shows "soldAmount t = js_div (parseFloat s) (Fin (10 ^ 6)) \<and>
         soldAmount t = soldAmount (t\<lparr>rawTokenAmount := Some (r\<lparr>decimals := None\<rparr>)\<rparr>) \<and>
         boughtAmount rt t = Some (sanityClamp (mint t) (js_div (parseFloat s) (Fin (10 ^ 6)))) \<and>
         boughtAmount rt t = boughtAmount rt (t\<lparr>rawTokenAmount := Some (r\<lparr>decimals := None\<rparr>)\<rparr>) \<and>
         (filter (\<lambda>x. fromUserAccount x = Some w) tts = t # rest \<longrightarrow>
            (\<forall>ti. extractSwapInfo rt tx w = Some ti \<longrightarrow>
                  amountIn ti = Some (js_div (parseFloat s) (Fin (10 ^ 6))))) \<and>
         (filter (\<lambda>x. toUserAccount x = Some w) tts = t # rest \<longrightarrow>
            (\<exists>ti. extractSwapInfo rt tx w = Some ti \<and>
                  amountOut ti =
                    Some (sanityClamp (mint t) (js_div (parseFloat s) (Fin (10 ^ 6))))))"
proof -
  have sold: "soldAmount t = js_div (parseFloat s) (Fin (10 ^ 6))"
    using assms by (simp add: soldAmount_def orString_def decimalsOr6_def)
  have sold': "soldAmount (t\<lparr>rawTokenAmount := Some (r\<lparr>decimals := None\<rparr>)\<rparr>) =
      js_div (parseFloat s) (Fin (10 ^ 6))"
    using assms by (simp add: soldAmount_def orString_def decimalsOr6_def)
  have bought: "boughtAmount rt t =
      Some (sanityClamp (mint t) (js_div (parseFloat s) (Fin (10 ^ 6))))"
    using assms by (simp add: boughtAmount_def boughtRawAmount_def decimalsOr6_def)
  have bought': "boughtAmount rt (t\<lparr>rawTokenAmount := Some (r\<lparr>decimals := None\<rparr>)\<rparr>) =
      Some (sanityClamp (mint t) (js_div (parseFloat s) (Fin (10 ^ 6))))"
    using assms by (simp add: boughtAmount_def boughtRawAmount_def decimalsOr6_def)
  have first_sent: "amountIn ti = Some (js_div (parseFloat s) (Fin (10 ^ 6)))"
    if "filter (\<lambda>x. fromUserAccount x = Some w) tts = t # rest"
      and "extractSwapInfo rt tx w = Some ti" for ti
  proof -
    from that(1) have "tts \<noteq> []" by auto
    with that assms(1) sold show ?thesis
      by (auto simp: extractSwapInfo_def Let_def assignProfitLoss_keeps
            split: list.splits option.splits)
  qed
  have first_received: "\<exists>ti. extractSwapInfo rt tx w = Some ti \<and>
      amountOut ti = Some (sanityClamp (mint t) (js_div (parseFloat s) (Fin (10 ^ 6))))"
    if "filter (\<lambda>x. toUserAccount x = Some w) tts = t # rest"
  proof -
    from that have "tts \<noteq> []" by auto
    with that assms(1) bought show ?thesis
      by (auto simp: extractSwapInfo_def Let_def assignProfitLoss_keeps split: list.splits)
  qed
  show ?thesis
    using sold sold' bought bought' first_sent first_received by metis
qed

theorem zero_decimals_default_six_witness:
  "amountIn (the (extractSwapInfo sampleRuntime zeroDecimalsTx ''wallet'')) = Some (Fin (5 / 2)) \<and>
   soldAmount rawSold = Fin (5 / 2) \<and>
   (\<exists>ti. extractSwapInfo sampleRuntime zeroDecimalsTx ''wallet'' = Some ti \<and>
         amountOut ti = Some (Fin 10)) \<and>
   boughtAmount sampleRuntime rawBought = Some (Fin 10)"
proof -
  have tts: "tokenTransfers zeroDecimalsTx = Some [rawSold, rawBought]"
    by (simp add: zeroDecimalsTx_def plainTx_def)
  have ne: "''2500000'' \<noteq> []" "''10000000'' \<noteq> []" by simp_all
  have sold: "rawTokenAmount rawSold = Some \<lparr>decimals = Some 0, rawAmount = Some ''2500000''\<rparr>"
    "decimals \<lparr>decimals = Some 0, rawAmount = Some ''2500000''\<rparr> = Some 0"
    "rawAmount \<lparr>decimals = Some 0, rawAmount = Some ''2500000''\<rparr> = Some ''2500000''"
    by (simp_all add: rawSold_def)
  have bought: "rawTokenAmount rawBought = Some \<lparr>decimals = Some 0, rawAmount = Some ''10000000''\<rparr>"
    "decimals \<lparr>decimals = Some 0, rawAmount = Some ''10000000''\<rparr> = Some 0"
    "rawAmount \<lparr>decimals = Some 0, rawAmount = Some ''10000000''\<rparr> = Some ''10000000''"
    by (simp_all add: rawBought_def)
  have sent: "filter (\<lambda>x. fromUserAccount x = Some ''wallet'') [rawSold, rawBought] = rawSold # []"
    by (simp add: rawSold_def rawBought_def)
  have received:
    "filter (\<lambda>x. toUserAccount x = Some ''wallet'') [rawSold, rawBought] = rawBought # []"
    by (simp add: rawSold_def rawBought_def)
  have some: "extractSwapInfo sampleRuntime zeroDecimalsTx ''wallet'' =
      Some (the (extractSwapInfo sampleRuntime zeroDecimalsTx ''wallet''))"
    by code_simp
  have val: "js_div (parseFloat ''2500000'') (Fin (10 ^ 6)) = Fin (5 / 2)"
    "js_div (parseFloat ''10000000'') (Fin (10 ^ 6)) = Fin 10"
    by code_simp+
  have clamp: "sanityClamp (mint rawBought) (Fin 10) = Fin 10" by code_simp
  note s = zero_decimals_default_six [OF tts sold ne(1), of sampleRuntime "''wallet''" "[]"]
  note b = zero_decimals_default_six [OF tts bought ne(2), of sampleRuntime "''wallet''" "[]"]
  from s sent some
  have "amountIn (the (extractSwapInfo sampleRuntime zeroDecimalsTx ''wallet'')) = Some (Fin (5 / 2))"
    unfolding val by metis
  moreover from s have "soldAmount rawSold = Fin (5 / 2)" unfolding val by (rule conjunct1)
  moreover from b received
  have "\<exists>ti. extractSwapInfo sampleRuntime zeroDecimalsTx ''wallet'' = Some ti \<and>
         amountOut ti = Some (Fin 10)"
    unfolding val clamp by metis
  moreover from b have "boughtAmount sampleRuntime rawBought = Some (Fin 10)"
    unfolding val clamp by metis
  ultimately show ?thesis by (intro conjI)
qed

subsection \<open>Profit and loss of a swap\<close>

lemma assignProfitLoss_profitLoss:
  "profitLoss (assignProfitLoss tx w x) =
     (case accountData tx of
        None \<Rightarrow> profitLoss x
      | Some ad \<Rightarrow>
          (case find (\<lambda>d. account d = w) ad of
             None \<Rightarrow> profitLoss x
           | Some e \<Rightarrow>
               Some (if js_gt (nativeBalanceChange e) (Fin 0)
                     then js_div (nativeBalanceChange e) (Fin 1000000000)
                     else if tokenOut x = Some WSOL \<and> tokenIn x \<noteq> Some WSOL
                          then Fin (1 / 1000) else Fin (- (1 / 1000)))))"
  by (simp add: assignProfitLoss_def split: option.splits)

lemma extract_token_path:
  assumes "tokenTransfers tx = Some tts" and "tts \<noteq> []"
    and "extractSwapInfo rt tx w = Some ti"
  shows "\<exists>x. ti = assignProfitLoss tx w x \<and> profitLoss x = None"
  using assms
  by (auto simp: extractSwapInfo_def Let_def split: list.splits option.splits)

text \<open>
  Claim C6, as stated, fails: a trade extracted from token transfers carries no profit
  or loss when the transaction has no account data (or none for the wallet).
\<close>

theorem profitLoss_absent_without_account_data:
  "extractSwapInfo sampleRuntime noAccountDataTx ''wallet'' =
     Some \<lparr>timestamp = Fin 1700000000, trade_type = ''SWAP'', tokenIn = Some ''mintA'',
           tokenOut = None, amountIn = Some (Fin (5 / 2)), amountOut = None,
           profitLoss = None, signature = ''5sig'', trade_source = Some ''JUPITER''\<rparr>"
  by code_simp

text \<open>
  Claim C6, amended. For a trade extracted from token transfers: when the account data
  of the transaction has an entry for the wallet, the profit or loss is the balance
  change of that entry divided by \<open>10^9\<close> if the change is positive, else \<open>+0.001\<close> if the
  token bought is the wrapped native token and the token sold is not, else \<open>-0.001\<close>;
  when the transaction has no account data, or none for the wallet, the trade carries no
  profit or loss.
\<close>

theorem profitLoss_heuristic:
  assumes "tokenTransfers tx = Some tts" and "tts \<noteq> []"
    and "extractSwapInfo rt tx w = Some ti"
  shows "profitLoss ti =
     (case accountData tx of
        None \<Rightarrow> None
      | Some ad \<Rightarrow>
          (case find (\<lambda>d. account d = w) ad of
             None \<Rightarrow> None
           | Some e \<Rightarrow>
               Some (if js_gt (nativeBalanceChange e) (Fin 0)
                     then js_div (nativeBalanceChange e) (Fin (10 ^ 9))
                     else if tokenOut ti = Some WSOL \<and> tokenIn ti \<noteq> Some WSOL
                          then Fin (1 / 1000) else Fin (- (1 / 1000)))))"
proof -
  from extract_token_path [OF assms] obtain x
    where ti: "ti = assignProfitLoss tx w x" and x: "profitLoss x = None" by blast
  show ?thesis
    unfolding ti
    by (simp add: assignProfitLoss_profitLoss assignProfitLoss_keeps x split: option.splits)
qed

theorem profitLoss_heuristic_witness:
  "profitLoss (the (extractSwapInfo sampleRuntime profitTx ''wallet'')) = Some (Fin (1 / 200))"
proof -
  have tts: "tokenTransfers profitTx = Some [rawSold, rawBought]"
    by (simp add: profitTx_def plainTx_def)
  have ne: "[rawSold, rawBought] \<noteq> []" by simp
  have some: "extractSwapInfo sampleRuntime profitTx ''wallet'' =
      Some (the (extractSwapInfo sampleRuntime profitTx ''wallet''))"
    by code_simp
  from profitLoss_heuristic [OF tts ne some]
  show ?thesis by (simp add: profitTx_def plainTx_def)
qed

subsection \<open>Transactions that do not involve the wallet\<close>

text \<open>
  With no token transfer at all, a trade is extracted exactly when the wallet both sent
  and received native currency.
\<close>

lemma extract_without_token_transfers:
  assumes "tokenTransfers tx = None \<or> tokenTransfers tx = Some []"
  shows "extractSwapInfo rt tx w = None \<longleftrightarrow>
     (case nativeTransfers tx of
        None \<Rightarrow> True
      | Some nts \<Rightarrow>
          filter (\<lambda>x. nativeFrom x = Some w) nts = [] \<or>
          filter (\<lambda>x. nativeTo x = Some w) nts = [])"
  using assms
  by (auto simp: extractSwapInfo_def Let_def split: option.splits)

text \<open>
  With a token transfer, a trade is extracted unless the amount bought cannot be read,
  whether or not a transfer names the wallet.
\<close>

lemma extract_with_token_transfers:
  assumes "tokenTransfers tx = Some tts" and "tts \<noteq> []"
    and "filter (\<lambda>x. toUserAccount x = Some w) tts = []"
  shows "extractSwapInfo rt tx w \<noteq> None"
  using assms
  by (auto simp: extractSwapInfo_def Let_def split: list.splits)

text \<open>
  Claim C8. A swap whose token transfers are neither sent nor received by the wallet
  should yield no trade. The code returns a trade as soon as the transaction has a token
  transfer: \<open>strangerTx\<close> moves a token from \<open>alice\<close> to \<open>bob\<close>, and the analysis of
  \<open>wallet\<close> counts it as a trade with no tokens and no amounts.
\<close>

theorem stranger_swap_is_counted:
  "extractSwapInfo sampleRuntime strangerTx ''wallet'' =
     Some \<lparr>timestamp = Fin 1700000000, trade_type = ''SWAP'', tokenIn = None, tokenOut = None,
           amountIn = None, amountOut = None, profitLoss = None, signature = ''5sig'',
           trade_source = Some ''JUPITER''\<rparr> \<and>
   analyzeWallet sampleRuntime (Inr [strangerTx]) ''wallet'' =
     Inr \<lparr>totalTrades = 1, profitableTrades = 0, totalProfitLoss = Fin 0,
          averageTradeSize = Fin 0, largestTrade = Fin 0, largestSOLTrade = Fin 0,
          successRate = Fin 0,
          tradeHistory =
            [\<lparr>timestamp = Fin 1700000000, trade_type = ''SWAP'', tokenIn = None,
              tokenOut = None, amountIn = None, amountOut = None, profitLoss = None,
              signature = ''5sig'', trade_source = Some ''JUPITER''\<rparr>]\<rparr>"
  by code_simp

subsection \<open>The statistics of a wallet\<close>

text \<open>Facts about the comparison of numbers.\<close>

lemma js_gt_truthy: "js_gt p (Fin 0) \<Longrightarrow> js_truthy p"
  by (cases p) auto

lemma js_le_trans: "b \<noteq> NaN \<Longrightarrow> \<not> js_gt a b \<Longrightarrow> \<not> js_gt b c \<Longrightarrow> \<not> js_gt a c"
  by (cases a; cases b; cases c) auto

text \<open>The product of two doubles does not depend on their order.\<close>

lemma mulDoubles_commute: "mulDoubles a b = mulDoubles b a"
  by (cases a; cases b) (auto simp: mult.commute)

lemma dbl_mul_commute: "dbl_mul a b = dbl_mul b a"
  by (simp add: dbl_mul_def mulDoubles_commute)

text \<open>
  The running maximum of the loop: started from a number that is not below zero, it ends
  on the start value or on one of the amounts, and no amount is greater.
\<close>

lemma pickLarger_fold:
  assumes "m0 \<noteq> NaN" and "\<not> js_gt (Fin 0) m0"
  shows "foldl pickLarger m0 xs \<noteq> NaN \<and>
         \<not> js_gt (Fin 0) (foldl pickLarger m0 xs) \<and>
         \<not> js_gt m0 (foldl pickLarger m0 xs) \<and>
         (foldl pickLarger m0 xs = m0 \<or> foldl pickLarger m0 xs \<in> set xs) \<and>
         list_all (\<lambda>a. \<not> js_gt a (foldl pickLarger m0 xs)) xs"
  using assms
proof (induction xs arbitrary: m0)
  case Nil
  then show ?case by (cases m0) auto
next
  case (Cons a xs)
  let ?m1 = "pickLarger m0 a"
  let ?m = "foldl pickLarger ?m1 xs"
  have m1: "?m1 \<noteq> NaN" "\<not> js_gt (Fin 0) ?m1" "\<not> js_gt m0 ?m1" "\<not> js_gt a ?m1"
    using Cons.prems
    by (cases a; cases m0; auto simp: pickLarger_def)+
  from Cons.IH [OF m1(1) m1(2)]
  have ih: "?m \<noteq> NaN" "\<not> js_gt (Fin 0) ?m" "\<not> js_gt ?m1 ?m"
    "?m = ?m1 \<or> ?m \<in> set xs" "list_all (\<lambda>a. \<not> js_gt a ?m) xs"
    by auto
  have "\<not> js_gt m0 ?m" using js_le_trans [OF m1(1) m1(3) ih(3)] .
  moreover have "\<not> js_gt a ?m" using js_le_trans [OF m1(1) m1(4) ih(3)] .
  moreover have "?m = m0 \<or> ?m \<in> set (a # xs)"
    using ih(4) by (auto simp: pickLarger_def)
  ultimately show ?case using ih by simp
qed

lemma isLargest_fold: "isLargest (foldl pickLarger (Fin 0) xs) xs"
  using pickLarger_fold [of "Fin 0" xs] by (simp add: isLargest_def)

text \<open>A list of amounts has one largest element in the sense of \<open>isLargest\<close>.\<close>

lemma js_antisym: "a \<noteq> NaN \<Longrightarrow> b \<noteq> NaN \<Longrightarrow> \<not> js_gt a b \<Longrightarrow> \<not> js_gt b a \<Longrightarrow> a = b"
  by (cases a; cases b) auto

lemma isLargest_unique:
  assumes "isLargest m xs" and "isLargest m' xs"
  shows "m = m'"
proof -
  have "\<not> js_gt m m'" using assms by (auto simp: isLargest_def list_all_iff)
  moreover have "\<not> js_gt m' m" using assms by (auto simp: isLargest_def list_all_iff)
  ultimately show ?thesis using assms js_antisym by (auto simp: isLargest_def)
qed

text \<open>The loop over the feed is a fold of \<open>recordTrade\<close> over the extracted trades.\<close>

lemma process_foldl:
  "processTransactions rt w s txs = foldl recordTrade s (extractedTrades rt w txs)"
  by (induction txs arbitrary: s) (auto simp: extractedTrades_def map_filter_simps split: option.splits)

lemma positiveProfits_simps:
  "positiveProfits [] = []"
  "positiveProfits (t # ts) =
     (if isProfitable t then the (profitLoss t) # positiveProfits ts else positiveProfits ts)"
  by (auto simp: positiveProfits_def isProfitable_def map_filter_simps split: option.splits)

lemma amountsIn_simps:
  "amountsIn [] = []"
  "amountsIn (t # ts) = (case amountIn t of None \<Rightarrow> amountsIn ts | Some a \<Rightarrow> a # amountsIn ts)"
  by (auto simp: amountsIn_def map_filter_simps split: option.splits)

lemma recordTrade_fields:
  "tradeHistory (recordTrade s t) = tradeHistory s @ [t]"
  "totalTrades (recordTrade s t) = Suc (totalTrades s)"
  "profitableTrades (recordTrade s t) = (if isProfitable t then Suc (profitableTrades s) else profitableTrades s)"
  "totalProfitLoss (recordTrade s t) =
     (if isProfitable t then dbl_add (totalProfitLoss s) (the (profitLoss t)) else totalProfitLoss s)"
  "largestTrade (recordTrade s t) =
     (case amountIn t of None \<Rightarrow> largestTrade s | Some a \<Rightarrow> pickLarger (largestTrade s) a)"
  "largestSOLTrade (recordTrade s t) =
     (case amountIn t of
        None \<Rightarrow> largestSOLTrade s
      | Some a \<Rightarrow> if tokenIn t = Some WSOL then pickLarger (largestSOLTrade s) a else largestSOLTrade s)"
  "successRate (recordTrade s t) = successRate s"
  "averageTradeSize (recordTrade s t) = averageTradeSize s"
  by (auto simp: recordTrade_def Let_def isProfitable_def pickLarger_def js_gt_truthy
        split: option.splits)

lemma foldl_recordTrade_history: "tradeHistory (foldl recordTrade s ts) = tradeHistory s @ ts"
  by (induction ts arbitrary: s) (simp_all add: recordTrade_fields)

lemma foldl_recordTrade_total: "totalTrades (foldl recordTrade s ts) = totalTrades s + length ts"
  by (induction ts arbitrary: s) (simp_all add: recordTrade_fields)

lemma foldl_recordTrade_profitable:
  "profitableTrades (foldl recordTrade s ts) = profitableTrades s + length (filter isProfitable ts)"
  by (induction ts arbitrary: s) (simp_all add: recordTrade_fields)

lemma foldl_recordTrade_profit:
  "totalProfitLoss (foldl recordTrade s ts) = foldl dbl_add (totalProfitLoss s) (positiveProfits ts)"
  by (induction ts arbitrary: s) (simp_all add: recordTrade_fields positiveProfits_simps)

lemma foldl_recordTrade_largest:
  "largestTrade (foldl recordTrade s ts) = foldl pickLarger (largestTrade s) (amountsIn ts)"
  by (induction ts arbitrary: s) (simp_all add: recordTrade_fields amountsIn_simps split: option.splits)

lemma foldl_recordTrade_largestSOL:
  "largestSOLTrade (foldl recordTrade s ts) =
     foldl pickLarger (largestSOLTrade s) (amountsIn (filter (\<lambda>t. tokenIn t = Some WSOL) ts))"
  by (induction ts arbitrary: s) (simp_all add: recordTrade_fields amountsIn_simps split: option.splits)

lemma foldl_recordTrade_rates:
  "successRate (foldl recordTrade s ts) = successRate s"
  "averageTradeSize (foldl recordTrade s ts) = averageTradeSize s"
  by (induction ts arbitrary: s) (simp_all add: recordTrade_fields)

text \<open>
  Claim C7. The statistics \<open>analyzeWallet\<close> returns for a feed, in terms of the trades
  extracted from it: the history is these trades in order, \<open>totalTrades\<close> their number,
  \<open>profitableTrades\<close> the number of those with a profit, \<open>totalProfitLoss\<close> the sum of
  the positive profits (added in the order of the feed), \<open>largestTrade\<close> the largest
  amount sold and \<open>largestSOLTrade\<close> the largest amount of wrapped native token sold;
  with at least one trade the success rate is 100 times the quotient
  \<open>profitableTrades / totalTrades\<close> and the average trade size is
  \<open>totalProfitLoss / totalTrades\<close>, with none both are zero. Sum, quotient and product
  are those of doubles, each operation rounded.
\<close>

theorem analyzeWallet_aggregates:
  "\<exists>s. analyzeWallet rt (Inr txs) w = Inr s \<and>
     tradeHistory s = extractedTrades rt w txs \<and>
     totalTrades s = length (extractedTrades rt w txs) \<and>
     profitableTrades s = length (filter isProfitable (extractedTrades rt w txs)) \<and>
     totalProfitLoss s = dbl_sum (positiveProfits (extractedTrades rt w txs)) \<and>
     isLargest (largestTrade s) (amountsIn (extractedTrades rt w txs)) \<and>
     isLargest (largestSOLTrade s)
       (amountsIn (filter (\<lambda>t. tokenIn t = Some WSOL) (extractedTrades rt w txs))) \<and>
     (0 < totalTrades s \<longrightarrow>
        successRate s =
          dbl_mul (Fin 100)
            (dbl_div (Fin (of_nat (profitableTrades s))) (Fin (of_nat (totalTrades s)))) \<and>
        successRate s =
          dbl_mul (dbl_div (Fin (of_nat (profitableTrades s))) (Fin (of_nat (totalTrades s))))
            (Fin 100) \<and>
        averageTradeSize s = dbl_div (totalProfitLoss s) (Fin (of_nat (totalTrades s)))) \<and>
     (totalTrades s = 0 \<longrightarrow> successRate s = Fin 0 \<and> averageTradeSize s = Fin 0)"
proof -
  define recs where "recs = extractedTrades rt w txs"
  define f where "f = foldl recordTrade initialStats recs"
  have an: "analyzeWallet rt (Inr txs) w = Inr (finalStats f)"
    by (simp add: analyzeWallet_def process_foldl f_def recs_def)
  have hist: "tradeHistory f = recs"
    by (simp add: f_def foldl_recordTrade_history initialStats_def)
  have tot: "totalTrades f = length recs"
    by (simp add: f_def foldl_recordTrade_total initialStats_def)
  have prof: "profitableTrades f = length (filter isProfitable recs)"
    by (simp add: f_def foldl_recordTrade_profitable initialStats_def)
  have pl: "totalProfitLoss f = dbl_sum (positiveProfits recs)"
    by (simp add: f_def foldl_recordTrade_profit initialStats_def dbl_sum_def)
  have lt: "isLargest (largestTrade f) (amountsIn recs)"
    using isLargest_fold [of "amountsIn recs"]
    by (simp add: f_def foldl_recordTrade_largest initialStats_def)
  have ls: "isLargest (largestSOLTrade f) (amountsIn (filter (\<lambda>t. tokenIn t = Some WSOL) recs))"
    using isLargest_fold [of "amountsIn (filter (\<lambda>t. tokenIn t = Some WSOL) recs)"]
    by (simp add: f_def foldl_recordTrade_largestSOL initialStats_def)
  have rates: "successRate f = Fin 0" "averageTradeSize f = Fin 0"
    by (simp_all add: f_def foldl_recordTrade_rates initialStats_def)
  have fin: "tradeHistory (finalStats f) = tradeHistory f" "totalTrades (finalStats f) = totalTrades f"
    "profitableTrades (finalStats f) = profitableTrades f"
    "totalProfitLoss (finalStats f) = totalProfitLoss f"
    "largestTrade (finalStats f) = largestTrade f" "largestSOLTrade (finalStats f) = largestSOLTrade f"
    by (simp_all add: finalStats_def)
  have pos: "0 < totalTrades f \<longrightarrow>
      successRate (finalStats f) =
        dbl_mul (Fin 100) (dbl_div (Fin (of_nat (profitableTrades f))) (Fin (of_nat (totalTrades f)))) \<and>
      successRate (finalStats f) =
        dbl_mul (dbl_div (Fin (of_nat (profitableTrades f))) (Fin (of_nat (totalTrades f)))) (Fin 100) \<and>
      averageTradeSize (finalStats f) = dbl_div (totalProfitLoss f) (Fin (of_nat (totalTrades f)))"
    by (simp add: finalStats_def dbl_mul_commute [of "Fin 100"])
  have zero: "totalTrades f = 0 \<longrightarrow> successRate (finalStats f) = Fin 0 \<and> averageTradeSize (finalStats f) = Fin 0"
    by (simp add: finalStats_def rates)
  show ?thesis
    unfolding recs_def [symmetric]
    using pos zero lt ls
    by (intro exI [of _ "finalStats f"])
      (simp add: an fin hist tot prof pl dbl_mul_commute [of "Fin 100"])
qed

theorem analyzeWallet_aggregates_witness:
  "(\<exists>s. analyzeWallet sampleRuntime (Inr twentySwaps) ''wallet'' = Inr s \<and>
      totalTrades s = 20 \<and> profitableTrades s = 11 \<and>
      successRate s = Fin (7740561859543041 / 140737488355328)) \<and>
   (\<exists>s. analyzeWallet sampleRuntime (Inr tenthsFeed) ''wallet'' = Inr s \<and>
      totalTrades s = 3 \<and> profitableTrades s = 3 \<and>
      totalProfitLoss s = Fin (1351079888211149 / 2251799813685248) \<and>
      successRate s = Fin 100 \<and>
      averageTradeSize s = Fin (7205759403792795 / 36028797018963968)) \<and>
   (\<exists>s. analyzeWallet sampleRuntime (Inr []) ''wallet'' = Inr s \<and>
      totalTrades s = 0 \<and> successRate s = Fin 0 \<and> averageTradeSize s = Fin 0)"
proof -
  have len20: "length (extractedTrades sampleRuntime ''wallet'' twentySwaps) = 20" by code_simp
  have prof20: "length (filter isProfitable (extractedTrades sampleRuntime ''wallet'' twentySwaps)) = 11"
    by code_simp
  have rate20: "dbl_mul (dbl_div (Fin 11) (Fin 20)) (Fin 100) =
      Fin (7740561859543041 / 140737488355328)"
    by code_simp
  obtain s where a: "analyzeWallet sampleRuntime (Inr twentySwaps) ''wallet'' = Inr s"
    and t: "totalTrades s = length (extractedTrades sampleRuntime ''wallet'' twentySwaps)"
    and p: "profitableTrades s =
        length (filter isProfitable (extractedTrades sampleRuntime ''wallet'' twentySwaps))"
    and r: "0 < totalTrades s \<longrightarrow>
        successRate s =
          dbl_mul (Fin 100)
            (dbl_div (Fin (of_nat (profitableTrades s))) (Fin (of_nat (totalTrades s)))) \<and>
        successRate s =
          dbl_mul (dbl_div (Fin (of_nat (profitableTrades s))) (Fin (of_nat (totalTrades s))))
            (Fin 100) \<and>
        averageTradeSize s = dbl_div (totalProfitLoss s) (Fin (of_nat (totalTrades s)))"
    using analyzeWallet_aggregates [of sampleRuntime twentySwaps "''wallet''"]
    by (elim exE conjE)
  have t20: "totalTrades s = 20" using t len20 by simp
  have p11: "profitableTrades s = 11" using p prof20 by simp
  have pos: "0 < totalTrades s" by (simp add: t20)
  from r pos have "successRate s =
      dbl_mul (dbl_div (Fin (of_nat (profitableTrades s))) (Fin (of_nat (totalTrades s))))
        (Fin 100)"
    by blast
  then have "successRate s = dbl_mul (dbl_div (Fin 11) (Fin 20)) (Fin 100)"
    unfolding t20 p11 by simp
  then have r20: "successRate s = Fin (7740561859543041 / 140737488355328)"
    unfolding rate20 .
  have twenty: "\<exists>s. analyzeWallet sampleRuntime (Inr twentySwaps) ''wallet'' = Inr s \<and>
      totalTrades s = 20 \<and> profitableTrades s = 11 \<and>
      successRate s = Fin (7740561859543041 / 140737488355328)"
    using a t20 p11 r20 by (intro exI [of _ s]) simp
  have len3: "length (extractedTrades sampleRuntime ''wallet'' tenthsFeed) = 3" by code_simp
  have prof3: "length (filter isProfitable (extractedTrades sampleRuntime ''wallet'' tenthsFeed)) = 3"
    by code_simp
  have sum3: "dbl_sum (positiveProfits (extractedTrades sampleRuntime ''wallet'' tenthsFeed)) =
      Fin (1351079888211149 / 2251799813685248)"
    by code_simp
  have rate3: "dbl_mul (dbl_div (Fin 3) (Fin 3)) (Fin 100) = Fin 100" by code_simp
  have avg3: "dbl_div (Fin (1351079888211149 / 2251799813685248)) (Fin 3) =
      Fin (7205759403792795 / 36028797018963968)"
    by code_simp
  obtain u where a3: "analyzeWallet sampleRuntime (Inr tenthsFeed) ''wallet'' = Inr u"
    and t3: "totalTrades u = length (extractedTrades sampleRuntime ''wallet'' tenthsFeed)"
    and p3: "profitableTrades u =
        length (filter isProfitable (extractedTrades sampleRuntime ''wallet'' tenthsFeed))"
    and l3: "totalProfitLoss u =
        dbl_sum (positiveProfits (extractedTrades sampleRuntime ''wallet'' tenthsFeed))"
    and r3: "0 < totalTrades u \<longrightarrow>
        successRate u =
          dbl_mul (Fin 100)
            (dbl_div (Fin (of_nat (profitableTrades u))) (Fin (of_nat (totalTrades u)))) \<and>
        successRate u =
          dbl_mul (dbl_div (Fin (of_nat (profitableTrades u))) (Fin (of_nat (totalTrades u))))
            (Fin 100) \<and>
        averageTradeSize u = dbl_div (totalProfitLoss u) (Fin (of_nat (totalTrades u)))"
    using analyzeWallet_aggregates [of sampleRuntime tenthsFeed "''wallet''"]
    by (elim exE conjE)
  have tu: "totalTrades u = 3" using t3 len3 by simp
  have pu: "profitableTrades u = 3" using p3 prof3 by simp
  have lu: "totalProfitLoss u = Fin (1351079888211149 / 2251799813685248)"
    using l3 unfolding sum3 .
  have posu: "0 < totalTrades u" by (simp add: tu)
  from r3 posu have "successRate u =
      dbl_mul (dbl_div (Fin (of_nat (profitableTrades u))) (Fin (of_nat (totalTrades u))))
        (Fin 100)"
    by blast
  then have "successRate u = dbl_mul (dbl_div (Fin 3) (Fin 3)) (Fin 100)"
    unfolding tu pu by simp
  then have ru: "successRate u = Fin 100" unfolding rate3 .
  from r3 posu
  have "averageTradeSize u = dbl_div (totalProfitLoss u) (Fin (of_nat (totalTrades u)))"
    by blast
  then have "averageTradeSize u = dbl_div (Fin (1351079888211149 / 2251799813685248)) (Fin 3)"
    unfolding tu lu by simp
  then have au: "averageTradeSize u = Fin (7205759403792795 / 36028797018963968)"
    unfolding avg3 .
  have tenths: "\<exists>s. analyzeWallet sampleRuntime (Inr tenthsFeed) ''wallet'' = Inr s \<and>
      totalTrades s = 3 \<and> profitableTrades s = 3 \<and>
      totalProfitLoss s = Fin (1351079888211149 / 2251799813685248) \<and>
      successRate s = Fin 100 \<and>
      averageTradeSize s = Fin (7205759403792795 / 36028797018963968)"
    using a3 tu pu lu ru au by (intro exI [of _ u]) simp
  have none: "length (extractedTrades sampleRuntime ''wallet'' []) = 0" by code_simp
  obtain s0 where a0: "analyzeWallet sampleRuntime (Inr []) ''wallet'' = Inr s0"
    and t0: "totalTrades s0 = length (extractedTrades sampleRuntime ''wallet'' [])"
    and r0: "totalTrades s0 = 0 \<longrightarrow> successRate s0 = Fin 0 \<and> averageTradeSize s0 = Fin 0"
    using analyzeWallet_aggregates [of sampleRuntime "[]" "''wallet''"]
    by (elim exE conjE)
  have idle: "\<exists>s. analyzeWallet sampleRuntime (Inr []) ''wallet'' = Inr s \<and>
      totalTrades s = 0 \<and> successRate s = Fin 0 \<and> averageTradeSize s = Fin 0"
    using a0 t0 r0 none by (intro exI [of _ s0]) simp
  show ?thesis using twenty tenths idle by (intro conjI)
qed

subsection \<open>The report\<close>

text \<open>Facts about texts that contain a text.\<close>

lemma sublist_later: "sublist xs ys \<Longrightarrow> sublist xs (ps @ ys)"
  unfolding sublist_def by (metis append.assoc)

text \<open>The text of a token and of an amount, written out.\<close>

lemma formatToken_text:
  "formatToken m =
     (case m of
        None \<Rightarrow> ''Unknown''
      | Some mt \<Rightarrow>
          if mt = [] then ''Unknown''
          else if mt = ''So11111111111111111111111111111111111111112'' then ''SOL''
          else if mt = ''EPjFWdd5AufqSSqeM2qN1xzybapC8G4wEGGkZwyTDt1v'' then ''USDC''
          else if mt = ''Es9vMFrzaCERmJfrF4H2FYD4KCoNkY11McCe8BenwNYB'' then ''USDT''
          else take 4 mt @ ''...'' @ drop (length mt - 4) mt)"
  by (simp add: formatToken_def tokenMap_def sliceLast_def split: option.splits)

lemma formatAmount_text:
  "formatAmount rt a =
     (case a of
        None \<Rightarrow> ''Unknown''
      | Some x \<Rightarrow> if toFixed rt x 6 = [] then ''Unknown'' else toFixed rt x 6)"
  by (simp add: formatAmount_def)

lemma sublist_trans: "sublist xs ys \<Longrightarrow> sublist ys zs \<Longrightarrow> sublist xs zs"
  unfolding sublist_def by (metis append.assoc)

lemma sublist_join: "x \<in> set xs \<Longrightarrow> sublist x (join sep xs)"
proof (induction sep xs rule: join.induct)
  case (1 sep)
  then show ?case by simp
next
  case (2 sep y)
  then show ?case by simp
next
  case (3 sep y z zs)
  show ?case
  proof (cases "x = y")
    case True
    show ?thesis unfolding True join.simps by (rule sublist_append_rightI)
  next
    case False
    with "3.prems" have "x \<in> set (z # zs)" by simp
    from "3.IH" [OF this] have "sublist x (join sep (z # zs))" .
    then have "sublist x ((y @ sep) @ join sep (z # zs))" by (rule sublist_later)
    then show ?thesis by simp
  qed
qed

lemma rendered_in_report:
  assumes "t \<in> set (take 5 (tradeHistory stats))"
  shows "sublist (renderTrade rt t) (formatReport rt stats walletAddress)"
proof -
  have "renderTrade rt t \<in> set (map (renderTrade rt) (take 5 (tradeHistory stats)))"
    using assms by simp
  then have "sublist (renderTrade rt t)
      (join [CHR 0x0A] (map (renderTrade rt) (take 5 (tradeHistory stats))))"
    by (rule sublist_join)
  moreover have "sublist (join [CHR 0x0A] (map (renderTrade rt) (take 5 (tradeHistory stats))))
      (formatReport rt stats walletAddress)"
    unfolding formatReport_def by (intro sublist_later sublist_append_rightI)
  ultimately show ?thesis by (rule sublist_trans)
qed

lemma unknown_amountIn:
  assumes "amountIn t = None"
  shows "sublist ''   Amount: Unknown '' (renderTrade rt t)"
proof -
  have "renderTrade rt t =
      (dateToLocaleString rt (dbl_mul (timestamp t) (Fin 1000)) @ [CHR 0x0A] @
       ''   '' @ formatToken (tokenIn t) @ '' '' @ arrow @ '' '' @ formatToken (tokenOut t) @
       [CHR 0x0A]) @
      ''   Amount: Unknown '' @
      (arrow @ '' '' @ formatAmount rt (amountOut t) @ [CHR 0x0A] @
       ''   Source: '' @ orString (trade_source t) ''Unknown'' @ [CHR 0x0A] @ ''  '')"
    using assms by (simp add: renderTrade_def formatAmount_def)
  then show ?thesis by (metis sublist_appendI)
qed

lemma unknown_amountOut:
  assumes "amountOut t = None"
  shows "sublist ('' Unknown'' @ [CHR 0x0A] @ ''   Source: '') (renderTrade rt t)"
proof -
  have "renderTrade rt t =
      (dateToLocaleString rt (dbl_mul (timestamp t) (Fin 1000)) @ [CHR 0x0A] @
       ''   '' @ formatToken (tokenIn t) @ '' '' @ arrow @ '' '' @ formatToken (tokenOut t) @
       [CHR 0x0A] @ ''   Amount: '' @ formatAmount rt (amountIn t) @ '' '' @ arrow) @
      ('' Unknown'' @ [CHR 0x0A] @ ''   Source: '') @
      (orString (trade_source t) ''Unknown'' @ [CHR 0x0A] @ ''  '')"
    using assms by (simp add: renderTrade_def formatAmount_def)
  then show ?thesis by (metis sublist_appendI)
qed

text \<open>
  Claim C9. The report for any statistics and wallet address is the fixed template
  written out below: the header with the wallet address and the statistics, then the first
  five trades of the history, in their order, each with its date, its two tokens (a known
  mint by its symbol, another one abbreviated, a missing one as \<open>Unknown\<close>), its two
  amounts with six decimals (\<open>Unknown\<close> for an absent amount) and its source, and nothing
  of a later trade. So the report contains the wallet address, and for each of the first
  five trades with an absent amount it contains \<open>Unknown\<close> at the place of that amount.
  Once the feed was fetched, \<open>generateEndOfDayReport\<close> returns this report, which contains
  the wallet address, and not the text of the error branch; for a feed that yields no
  trade it is the report with zero counts and no trade.
\<close>

theorem report_shape:
  "formatReport rt stats walletAddress =
     [CHR 0x0A] @ ''=== Solana Wallet Trading Report ==='' @ [CHR 0x0A] @
     ''Wallet: '' @ walletAddress @ [CHR 0x0A] @
     ''Total Swaps: '' @ numberToString rt (Fin (of_nat (totalTrades stats))) @ [CHR 0x0A] @
     ''Profitable Trades: '' @ numberToString rt (Fin (of_nat (profitableTrades stats))) @
     [CHR 0x0A] @
     ''Success Rate: '' @ toFixed rt (successRate stats) 2 @ ''%'' @ [CHR 0x0A] @
     ''Total P/L: '' @ toFixed rt (totalProfitLoss stats) 4 @ '' SOL'' @ [CHR 0x0A] @
     ''Average Trade Size: '' @ toFixed rt (averageTradeSize stats) 4 @ '' SOL'' @ [CHR 0x0A] @
     ''Largest SOL Trade: '' @ toFixed rt (largestSOLTrade stats) 4 @ '' SOL'' @ [CHR 0x0A] @
     [CHR 0x0A] @ ''Recent Trades:'' @ [CHR 0x0A] @
     join [CHR 0x0A]
       (map (\<lambda>trade.
               dateToLocaleString rt (dbl_mul (timestamp trade) (Fin 1000)) @ [CHR 0x0A] @
               ''   '' @
               (case tokenIn trade of
                  None \<Rightarrow> ''Unknown''
                | Some mt \<Rightarrow>
                    if mt = [] then ''Unknown''
                    else if mt = ''So11111111111111111111111111111111111111112'' then ''SOL''
                    else if mt = ''EPjFWdd5AufqSSqeM2qN1xzybapC8G4wEGGkZwyTDt1v'' then ''USDC''
                    else if mt = ''Es9vMFrzaCERmJfrF4H2FYD4KCoNkY11McCe8BenwNYB'' then ''USDT''
                    else take 4 mt @ ''...'' @ drop (length mt - 4) mt) @
               [CHR 0x20, CHR 0xE2, CHR 0x86, CHR 0x92, CHR 0x20] @
               (case tokenOut trade of
                  None \<Rightarrow> ''Unknown''
                | Some mt \<Rightarrow>
                    if mt = [] then ''Unknown''
                    else if mt = ''So11111111111111111111111111111111111111112'' then ''SOL''
                    else if mt = ''EPjFWdd5AufqSSqeM2qN1xzybapC8G4wEGGkZwyTDt1v'' then ''USDC''
                    else if mt = ''Es9vMFrzaCERmJfrF4H2FYD4KCoNkY11McCe8BenwNYB'' then ''USDT''
                    else take 4 mt @ ''...'' @ drop (length mt - 4) mt) @
               [CHR 0x0A] @ ''   Amount: '' @
               (case amountIn trade of
                  None \<Rightarrow> ''Unknown''
                | Some x \<Rightarrow> if toFixed rt x 6 = [] then ''Unknown'' else toFixed rt x 6) @
               [CHR 0x20, CHR 0xE2, CHR 0x86, CHR 0x92, CHR 0x20] @
               (case amountOut trade of
                  None \<Rightarrow> ''Unknown''
                | Some x \<Rightarrow> if toFixed rt x 6 = [] then ''Unknown'' else toFixed rt x 6) @
               [CHR 0x0A] @ ''   Source: '' @
               (case trade_source trade of
                  None \<Rightarrow> ''Unknown''
                | Some v \<Rightarrow> if v = [] then ''Unknown'' else v) @
               [CHR 0x0A] @ ''  '')
          (take 5 (tradeHistory stats))) @
     [CHR 0x0A] \<and>
   sublist walletAddress (formatReport rt stats walletAddress) \<and>
   (\<forall>t \<in> set (take 5 (tradeHistory stats)).
      (amountIn t = None \<longrightarrow>
         sublist ''   Amount: Unknown '' (formatReport rt stats walletAddress)) \<and>
      (amountOut t = None \<longrightarrow>
         sublist ('' Unknown'' @ [CHR 0x0A] @ ''   Source: '')
           (formatReport rt stats walletAddress))) \<and>
   generateEndOfDayReport rt (Inr txs) walletAddress =
     formatReport rt (finalStats (processTransactions rt walletAddress initialStats txs))
       walletAddress \<and>
   sublist walletAddress (generateEndOfDayReport rt (Inr txs) walletAddress) \<and>
   (extractedTrades rt walletAddress txs = [] \<longrightarrow>
      generateEndOfDayReport rt (Inr txs) walletAddress =
        [CHR 0x0A] @ ''=== Solana Wallet Trading Report ==='' @ [CHR 0x0A] @
        ''Wallet: '' @ walletAddress @ [CHR 0x0A] @
        ''Total Swaps: '' @ numberToString rt (Fin 0) @ [CHR 0x0A] @
        ''Profitable Trades: '' @ numberToString rt (Fin 0) @ [CHR 0x0A] @
        ''Success Rate: '' @ toFixed rt (Fin 0) 2 @ ''%'' @ [CHR 0x0A] @
        ''Total P/L: '' @ toFixed rt (Fin 0) 4 @ '' SOL'' @ [CHR 0x0A] @
        ''Average Trade Size: '' @ toFixed rt (Fin 0) 4 @ '' SOL'' @ [CHR 0x0A] @
        ''Largest SOL Trade: '' @ toFixed rt (Fin 0) 4 @ '' SOL'' @ [CHR 0x0A] @
        [CHR 0x0A] @ ''Recent Trades:'' @ [CHR 0x0A] @ [CHR 0x0A])"
proof (intro conjI ballI impI)
  show "formatReport rt stats walletAddress =
     [CHR 0x0A] @ ''=== Solana Wallet Trading Report ==='' @ [CHR 0x0A] @
     ''Wallet: '' @ walletAddress @ [CHR 0x0A] @
     ''Total Swaps: '' @ numberToString rt (Fin (of_nat (totalTrades stats))) @ [CHR 0x0A] @
     ''Profitable Trades: '' @ numberToString rt (Fin (of_nat (profitableTrades stats))) @
     [CHR 0x0A] @
     ''Success Rate: '' @ toFixed rt (successRate stats) 2 @ ''%'' @ [CHR 0x0A] @
     ''Total P/L: '' @ toFixed rt (totalProfitLoss stats) 4 @ '' SOL'' @ [CHR 0x0A] @
     ''Average Trade Size: '' @ toFixed rt (averageTradeSize stats) 4 @ '' SOL'' @ [CHR 0x0A] @
     ''Largest SOL Trade: '' @ toFixed rt (largestSOLTrade stats) 4 @ '' SOL'' @ [CHR 0x0A] @
     [CHR 0x0A] @ ''Recent Trades:'' @ [CHR 0x0A] @
     join [CHR 0x0A]
       (map (\<lambda>trade.
               dateToLocaleString rt (dbl_mul (timestamp trade) (Fin 1000)) @ [CHR 0x0A] @
               ''   '' @
               (case tokenIn trade of
                  None \<Rightarrow> ''Unknown''
                | Some mt \<Rightarrow>
                    if mt = [] then ''Unknown''
                    else if mt = ''So11111111111111111111111111111111111111112'' then ''SOL''
                    else if mt = ''EPjFWdd5AufqSSqeM2qN1xzybapC8G4wEGGkZwyTDt1v'' then ''USDC''
                    else if mt = ''Es9vMFrzaCERmJfrF4H2FYD4KCoNkY11McCe8BenwNYB'' then ''USDT''
                    else take 4 mt @ ''...'' @ drop (length mt - 4) mt) @
               [CHR 0x20, CHR 0xE2, CHR 0x86, CHR 0x92, CHR 0x20] @
               (case tokenOut trade of
                  None \<Rightarrow> ''Unknown''
                | Some mt \<Rightarrow>
                    if mt = [] then ''Unknown''
                    else if mt = ''So11111111111111111111111111111111111111112'' then ''SOL''
                    else if mt = ''EPjFWdd5AufqSSqeM2qN1xzybapC8G4wEGGkZwyTDt1v'' then ''USDC''
                    else if mt = ''Es9vMFrzaCERmJfrF4H2FYD4KCoNkY11McCe8BenwNYB'' then ''USDT''
                    else take 4 mt @ ''...'' @ drop (length mt - 4) mt) @
               [CHR 0x0A] @ ''   Amount: '' @
               (case amountIn trade of
                  None \<Rightarrow> ''Unknown''
                | Some x \<Rightarrow> if toFixed rt x 6 = [] then ''Unknown'' else toFixed rt x 6) @
               [CHR 0x20, CHR 0xE2, CHR 0x86, CHR 0x92, CHR 0x20] @
               (case amountOut trade of
                  None \<Rightarrow> ''Unknown''
                | Some x \<Rightarrow> if toFixed rt x 6 = [] then ''Unknown'' else toFixed rt x 6) @
               [CHR 0x0A] @ ''   Source: '' @
               (case trade_source trade of
                  None \<Rightarrow> ''Unknown''
                | Some v \<Rightarrow> if v = [] then ''Unknown'' else v) @
               [CHR 0x0A] @ ''  '')
          (take 5 (tradeHistory stats))) @
     [CHR 0x0A]"
    unfolding formatReport_def renderTrade_def formatToken_text formatAmount_text orString_def
      arrow_def
    by simp
  show "sublist walletAddress (formatReport rt stats walletAddress)"
    unfolding formatReport_def by (rule sublist_appendI)
  show gen: "generateEndOfDayReport rt (Inr txs) walletAddress =
     formatReport rt (finalStats (processTransactions rt walletAddress initialStats txs))
       walletAddress"
    by (simp add: generateEndOfDayReport_def analyzeWallet_def)
  show "sublist walletAddress (generateEndOfDayReport rt (Inr txs) walletAddress)"
    unfolding gen formatReport_def by (rule sublist_appendI)
next
  fix t assume "t \<in> set (take 5 (tradeHistory stats))" and "amountIn t = None"
  then show "sublist ''   Amount: Unknown '' (formatReport rt stats walletAddress)"
    using sublist_trans [OF unknown_amountIn rendered_in_report] by blast
next
  fix t assume "t \<in> set (take 5 (tradeHistory stats))" and "amountOut t = None"
  then show "sublist ('' Unknown'' @ [CHR 0x0A] @ ''   Source: '')
      (formatReport rt stats walletAddress)"
    using sublist_trans [OF unknown_amountOut rendered_in_report] by blast
next
  assume "extractedTrades rt walletAddress txs = []"
  then show "generateEndOfDayReport rt (Inr txs) walletAddress =
        [CHR 0x0A] @ ''=== Solana Wallet Trading Report ==='' @ [CHR 0x0A] @
        ''Wallet: '' @ walletAddress @ [CHR 0x0A] @
        ''Total Swaps: '' @ numberToString rt (Fin 0) @ [CHR 0x0A] @
        ''Profitable Trades: '' @ numberToString rt (Fin 0) @ [CHR 0x0A] @
        ''Success Rate: '' @ toFixed rt (Fin 0) 2 @ ''%'' @ [CHR 0x0A] @
        ''Total P/L: '' @ toFixed rt (Fin 0) 4 @ '' SOL'' @ [CHR 0x0A] @
        ''Average Trade Size: '' @ toFixed rt (Fin 0) 4 @ '' SOL'' @ [CHR 0x0A] @
        ''Largest SOL Trade: '' @ toFixed rt (Fin 0) 4 @ '' SOL'' @ [CHR 0x0A] @
        [CHR 0x0A] @ ''Recent Trades:'' @ [CHR 0x0A] @ [CHR 0x0A]"
    by (simp add: generateEndOfDayReport_def analyzeWallet_def process_foldl finalStats_def
          initialStats_def formatReport_def)
qed

theorem report_shape_witness:
  "generateEndOfDayReport sampleRuntime (Inr reportFeed) ''wallet'' =
     [CHR 0x0A] @ ''=== Solana Wallet Trading Report ==='' @ [CHR 0x0A] @ ''Wallet: wallet'' @
     [CHR 0x0A] @ ''Total Swaps: 6'' @ [CHR 0x0A] @ ''Profitable Trades: 0'' @ [CHR 0x0A] @
     ''Success Rate: 0.00%'' @ [CHR 0x0A] @ ''Total P/L: 0.0000 SOL'' @ [CHR 0x0A] @
     ''Average Trade Size: 0.0000 SOL'' @ [CHR 0x0A] @ ''Largest SOL Trade: 1.5000 SOL'' @
     [CHR 0x0A] @ [CHR 0x0A] @ ''Recent Trades:'' @ [CHR 0x0A] @ ''1700000001000'' @
     [CHR 0x0A] @ ''   SOL '' @ [CHR 0xE2, CHR 0x86, CHR 0x92] @ '' USDC'' @ [CHR 0x0A] @
     ''   Amount: 1.500000 '' @ [CHR 0xE2, CHR 0x86, CHR 0x92] @ '' 30.000000'' @ [CHR 0x0A] @
     ''   Source: JUPITER'' @ [CHR 0x0A] @ ''  '' @ [CHR 0x0A] @ ''1700000002000'' @
     [CHR 0x0A] @ ''   mint...intA '' @ [CHR 0xE2, CHR 0x86, CHR 0x92] @ '' Unknown'' @
     [CHR 0x0A] @ ''   Amount: 2.500000 '' @ [CHR 0xE2, CHR 0x86, CHR 0x92] @ '' Unknown'' @
     [CHR 0x0A] @ ''   Source: Unknown'' @ [CHR 0x0A] @ ''  '' @ [CHR 0x0A] @
     ''1700000004000'' @ [CHR 0x0A] @ ''   Unknown '' @ [CHR 0xE2, CHR 0x86, CHR 0x92] @
     '' Unknown'' @ [CHR 0x0A] @ ''   Amount: Unknown '' @ [CHR 0xE2, CHR 0x86, CHR 0x92] @
     '' Unknown'' @ [CHR 0x0A] @ ''   Source: JUPITER'' @ [CHR 0x0A] @ ''  '' @ [CHR 0x0A] @
     ''1700000005000'' @ [CHR 0x0A] @ ''   Unknown '' @ [CHR 0xE2, CHR 0x86, CHR 0x92] @
     '' mint...intB'' @ [CHR 0x0A] @ ''   Amount: Unknown '' @ [CHR 0xE2, CHR 0x86, CHR 0x92] @
     '' 0.000010'' @ [CHR 0x0A] @ ''   Source: RAYDIUM'' @ [CHR 0x0A] @ ''  '' @ [CHR 0x0A] @
     ''1700000006000'' @ [CHR 0x0A] @ ''   SOL...SOL '' @ [CHR 0xE2, CHR 0x86, CHR 0x92] @
     '' SOL...SOL'' @ [CHR 0x0A] @ ''   Amount: 2.000000 '' @ [CHR 0xE2, CHR 0x86, CHR 0x92] @
     '' 1.000000'' @ [CHR 0x0A] @ ''   Source: SYSTEM'' @ [CHR 0x0A] @ ''  '' @ [CHR 0x0A] \<and>
   sublist ''   Amount: Unknown '' (generateEndOfDayReport sampleRuntime (Inr reportFeed) ''wallet'') \<and>
   sublist ('' Unknown'' @ [CHR 0x0A] @ ''   Source: '')
     (generateEndOfDayReport sampleRuntime (Inr reportFeed) ''wallet'') \<and>
   generateEndOfDayReport sampleRuntime (Inr []) ''wallet'' =
     [CHR 0x0A] @ ''=== Solana Wallet Trading Report ==='' @ [CHR 0x0A] @ ''Wallet: wallet'' @
     [CHR 0x0A] @ ''Total Swaps: 0'' @ [CHR 0x0A] @ ''Profitable Trades: 0'' @ [CHR 0x0A] @
     ''Success Rate: 0.00%'' @ [CHR 0x0A] @ ''Total P/L: 0.0000 SOL'' @ [CHR 0x0A] @
     ''Average Trade Size: 0.0000 SOL'' @ [CHR 0x0A] @ ''Largest SOL Trade: 0.0000 SOL'' @
     [CHR 0x0A] @ [CHR 0x0A] @ ''Recent Trades:'' @ [CHR 0x0A] @ [CHR 0x0A]"
proof -
  define stats where
    "stats = finalStats (processTransactions sampleRuntime ''wallet'' initialStats reportFeed)"
  define blank where
    "blank = \<lparr>timestamp = Fin 1700000004, trade_type = ''SWAP'', tokenIn = None, tokenOut = None,
       amountIn = None, amountOut = None, profitLoss = None, signature = ''5sig'',
       trade_source = Some ''JUPITER''\<rparr>"
  note shape = report_shape [of sampleRuntime stats "''wallet''" reportFeed]
  have body: "formatReport sampleRuntime stats ''wallet'' =
     [CHR 0x0A] @ ''=== Solana Wallet Trading Report ==='' @ [CHR 0x0A] @ ''Wallet: wallet'' @
     [CHR 0x0A] @ ''Total Swaps: 6'' @ [CHR 0x0A] @ ''Profitable Trades: 0'' @ [CHR 0x0A] @
     ''Success Rate: 0.00%'' @ [CHR 0x0A] @ ''Total P/L: 0.0000 SOL'' @ [CHR 0x0A] @
     ''Average Trade Size: 0.0000 SOL'' @ [CHR 0x0A] @ ''Largest SOL Trade: 1.5000 SOL'' @
     [CHR 0x0A] @ [CHR 0x0A] @ ''Recent Trades:'' @ [CHR 0x0A] @ ''1700000001000'' @
     [CHR 0x0A] @ ''   SOL '' @ [CHR 0xE2, CHR 0x86, CHR 0x92] @ '' USDC'' @ [CHR 0x0A] @
     ''   Amount: 1.500000 '' @ [CHR 0xE2, CHR 0x86, CHR 0x92] @ '' 30.000000'' @ [CHR 0x0A] @
     ''   Source: JUPITER'' @ [CHR 0x0A] @ ''  '' @ [CHR 0x0A] @ ''1700000002000'' @
     [CHR 0x0A] @ ''   mint...intA '' @ [CHR 0xE2, CHR 0x86, CHR 0x92] @ '' Unknown'' @
     [CHR 0x0A] @ ''   Amount: 2.500000 '' @ [CHR 0xE2, CHR 0x86, CHR 0x92] @ '' Unknown'' @
     [CHR 0x0A] @ ''   Source: Unknown'' @ [CHR 0x0A] @ ''  '' @ [CHR 0x0A] @
     ''1700000004000'' @ [CHR 0x0A] @ ''   Unknown '' @ [CHR 0xE2, CHR 0x86, CHR 0x92] @
     '' Unknown'' @ [CHR 0x0A] @ ''   Amount: Unknown '' @ [CHR 0xE2, CHR 0x86, CHR 0x92] @
     '' Unknown'' @ [CHR 0x0A] @ ''   Source: JUPITER'' @ [CHR 0x0A] @ ''  '' @ [CHR 0x0A] @
     ''1700000005000'' @ [CHR 0x0A] @ ''   Unknown '' @ [CHR 0xE2, CHR 0x86, CHR 0x92] @
     '' mint...intB'' @ [CHR 0x0A] @ ''   Amount: Unknown '' @ [CHR 0xE2, CHR 0x86, CHR 0x92] @
     '' 0.000010'' @ [CHR 0x0A] @ ''   Source: RAYDIUM'' @ [CHR 0x0A] @ ''  '' @ [CHR 0x0A] @
     ''1700000006000'' @ [CHR 0x0A] @ ''   SOL...SOL '' @ [CHR 0xE2, CHR 0x86, CHR 0x92] @
     '' SOL...SOL'' @ [CHR 0x0A] @ ''   Amount: 2.000000 '' @ [CHR 0xE2, CHR 0x86, CHR 0x92] @
     '' 1.000000'' @ [CHR 0x0A] @ ''   Source: SYSTEM'' @ [CHR 0x0A] @ ''  '' @ [CHR 0x0A]"
    unfolding stats_def by code_simp
  have gen: "generateEndOfDayReport sampleRuntime (Inr reportFeed) ''wallet'' =
      formatReport sampleRuntime stats ''wallet''"
    using shape unfolding stats_def by blast
  have shown: "blank \<in> set (take 5 (tradeHistory stats))"
    unfolding stats_def blank_def by code_simp
  have absent: "amountIn blank = None" "amountOut blank = None"
    by (simp_all add: blank_def)
  from shape shown absent
  have unknown_in: "sublist ''   Amount: Unknown '' (formatReport sampleRuntime stats ''wallet'')"
    by blast
  from shape shown absent
  have unknown_out: "sublist ('' Unknown'' @ [CHR 0x0A] @ ''   Source: '')
      (formatReport sampleRuntime stats ''wallet'')"
    by blast
  have none: "extractedTrades sampleRuntime ''wallet'' [] = []" by code_simp
  have zero: "numberToString sampleRuntime (Fin 0) = ''0''"
    "toFixed sampleRuntime (Fin 0) 2 = ''0.00''" "toFixed sampleRuntime (Fin 0) 4 = ''0.0000''"
    by code_simp+
  from report_shape [of sampleRuntime stats "''wallet''" "[]"] none
  have "generateEndOfDayReport sampleRuntime (Inr []) ''wallet'' =
        [CHR 0x0A] @ ''=== Solana Wallet Trading Report ==='' @ [CHR 0x0A] @
        ''Wallet: '' @ ''wallet'' @ [CHR 0x0A] @
        ''Total Swaps: '' @ numberToString sampleRuntime (Fin 0) @ [CHR 0x0A] @
        ''Profitable Trades: '' @ numberToString sampleRuntime (Fin 0) @ [CHR 0x0A] @
        ''Success Rate: '' @ toFixed sampleRuntime (Fin 0) 2 @ ''%'' @ [CHR 0x0A] @
        ''Total P/L: '' @ toFixed sampleRuntime (Fin 0) 4 @ '' SOL'' @ [CHR 0x0A] @
        ''Average Trade Size: '' @ toFixed sampleRuntime (Fin 0) 4 @ '' SOL'' @ [CHR 0x0A] @
        ''Largest SOL Trade: '' @ toFixed sampleRuntime (Fin 0) 4 @ '' SOL'' @ [CHR 0x0A] @
        [CHR 0x0A] @ ''Recent Trades:'' @ [CHR 0x0A] @ [CHR 0x0A]"
    by blast
  then have empty: "generateEndOfDayReport sampleRuntime (Inr []) ''wallet'' =
     [CHR 0x0A] @ ''=== Solana Wallet Trading Report ==='' @ [CHR 0x0A] @ ''Wallet: wallet'' @
     [CHR 0x0A] @ ''Total Swaps: 0'' @ [CHR 0x0A] @ ''Profitable Trades: 0'' @ [CHR 0x0A] @
     ''Success Rate: 0.00%'' @ [CHR 0x0A] @ ''Total P/L: 0.0000 SOL'' @ [CHR 0x0A] @
     ''Average Trade Size: 0.0000 SOL'' @ [CHR 0x0A] @ ''Largest SOL Trade: 0.0000 SOL'' @
     [CHR 0x0A] @ [CHR 0x0A] @ ''Recent Trades:'' @ [CHR 0x0A] @ [CHR 0x0A]"
    unfolding zero by simp
  show ?thesis
    using body unknown_in unknown_out empty unfolding gen by (intro conjI)
qed

section \<open>Properties of the price resolver\<close>

subsection \<open>The cache\<close>




subsection \<open>The chain of providers\<close>

lemma fetchCoinCap_source: "fetchCoinCap rt env ident = Some q \<Longrightarrow> source q = ''coincap-api''"
  by (auto simp: fetchCoinCap_def split: axios.splits option.splits if_splits)

text \<open>
  Claim C2. On a cache miss, when the first provider fails and the second one succeeds,
  \<open>getCryptoPrice\<close> returns the quote of the second provider, whose source is
  \<open>coincap-api\<close>, and the requests made are those to the first and to the second
  provider: the third one is not requested. (A provider is requested on a miss only.)
\<close>

theorem fallback_to_secondary:
  assumes "cacheLookup (nowAtCheck env) cache (trim (toLowerCase cryptoId)) = None"
    and "fetchCoinGecko rt env (trim (toLowerCase cryptoId)) = None"
    and "fetchCoinCap rt env (trim (toLowerCase cryptoId)) = Some quote"
  shows "\<exists>cache' calls. getCryptoPrice rt env cache cryptoId = (Inr quote, cache', calls) \<and>
           source quote = ''coincap-api'' \<and> calls = [CoinGecko, CoinCap] \<and>
           CryptoCompare \<notin> set calls"
  using assms fetchCoinCap_source [OF assms(3)]
  by (simp add: getCryptoPrice_def)

theorem fallback_to_secondary_witness:
  "fst (getCryptoPrice sampleRuntime (coinCapUp 1000) Map.empty ''bitcoin'') =
     Inr \<lparr>name = ''Bitcoin'', symbol = ''BTC'', price = Fin (6400013 / 100), currency = ''USD'',
          source = ''coincap-api''\<rparr> \<and>
   snd (snd (getCryptoPrice sampleRuntime (coinCapUp 1000) Map.empty ''bitcoin'')) =
     [CoinGecko, CoinCap]"
proof -
  have miss: "cacheLookup (nowAtCheck (coinCapUp 1000)) Map.empty (trim (toLowerCase ''bitcoin'')) = None"
    by (simp add: cacheLookup_def)
  have g: "fetchCoinGecko sampleRuntime (coinCapUp 1000) (trim (toLowerCase ''bitcoin'')) = None"
    by code_simp
  have c: "fetchCoinCap sampleRuntime (coinCapUp 1000) (trim (toLowerCase ''bitcoin'')) =
      Some \<lparr>name = ''Bitcoin'', symbol = ''BTC'', price = Fin (6400013 / 100), currency = ''USD'',
            source = ''coincap-api''\<rparr>"
    by code_simp
  from fallback_to_secondary [OF miss g c] show ?thesis by auto
qed

lemma suggestions_in_message:
  "list_all (\<lambda>s. sublist s (errorMessage cryptoId)) (take 5 POPULAR_CRYPTOS)"
proof -
  let ?tail = "[CHR 0x22] @ '' from any of the APIs. Try one of these: '' @
      join '', '' [''bitcoin'', ''ethereum'', ''solana'', ''cardano'', ''dogecoin''] @ ''...''"
  have t: "?tail = (CHR 0x22 # '' from any of the APIs. Try one of these: '') @ ''bitcoin'' @ '', '' @ ''ethereum'' @
      '', '' @ ''solana'' @ '', '' @ ''cardano'' @ '', '' @ ''dogecoin'' @ ''...''"
    by simp
  have five: "take 5 POPULAR_CRYPTOS = [''bitcoin'', ''ethereum'', ''solana'', ''cardano'', ''dogecoin'']"
    by (simp add: POPULAR_CRYPTOS_def)
  have em: "errorMessage cryptoId = (''Could not get price for '' @ [CHR 0x22]) @ cryptoId @ ?tail"
    by (simp only: errorMessage_def five)
  have b: "sublist ''bitcoin'' ?tail" unfolding t by (rule sublist_appendI)
  have e: "sublist ''ethereum'' ?tail" unfolding t
    by (intro sublist_later sublist_appendI)
  have s: "sublist ''solana'' ?tail" unfolding t
    by (intro sublist_later sublist_appendI)
  have c: "sublist ''cardano'' ?tail" unfolding t
    by (intro sublist_later sublist_appendI)
  have d: "sublist ''dogecoin'' ?tail" unfolding t
    by (intro sublist_later sublist_appendI)
  show ?thesis
    unfolding em five
    by (simp only: list.pred_inject simp_thms) (intro conjI sublist_later b e s c d)
qed

text \<open>
  Claim C3. On a cache miss, when the three providers fail, \<open>getCryptoPrice\<close> returns
  an error and no quote, after a request to each provider and with the cache unchanged;
  the message contains the identifier as it was given, before normalization, and each of
  the first five popular identifiers, which are at least one.
\<close>

theorem all_providers_fail:
  assumes "cacheLookup (nowAtCheck env) cache (trim (toLowerCase cryptoId)) = None"
    and "fetchCoinGecko rt env (trim (toLowerCase cryptoId)) = None"
    and "fetchCoinCap rt env (trim (toLowerCase cryptoId)) = None"
    and "fetchCryptoCompare rt env (trim (toLowerCase cryptoId)) = None"
  shows "\<exists>msg. getCryptoPrice rt env cache cryptoId =
                 (Inl msg, cache, [CoinGecko, CoinCap, CryptoCompare]) \<and>
               sublist cryptoId msg \<and>
               take 5 POPULAR_CRYPTOS \<noteq> [] \<and>
               list_all (\<lambda>s. sublist s msg) (take 5 POPULAR_CRYPTOS)"
proof -
  have "sublist cryptoId (errorMessage cryptoId)"
    unfolding errorMessage_def by (rule sublist_appendI)
  moreover have "take 5 POPULAR_CRYPTOS \<noteq> []" by (simp add: POPULAR_CRYPTOS_def)
  ultimately show ?thesis
    using assms suggestions_in_message [of cryptoId]
    by (simp add: getCryptoPrice_def)
qed

theorem all_providers_fail_witness:
  "isl (fst (getCryptoPrice sampleRuntime (allDown 1000) Map.empty ''DoesNotExist123'')) \<and>
   sublist ''DoesNotExist123''
     (projl (fst (getCryptoPrice sampleRuntime (allDown 1000) Map.empty ''DoesNotExist123''))) \<and>
   list_all
     (\<lambda>s. sublist s
        (projl (fst (getCryptoPrice sampleRuntime (allDown 1000) Map.empty ''DoesNotExist123''))))
     (take 5 POPULAR_CRYPTOS)"
proof -
  have miss: "cacheLookup (nowAtCheck (allDown 1000)) Map.empty
      (trim (toLowerCase ''DoesNotExist123'')) = None"
    by (simp add: cacheLookup_def)
  have g: "fetchCoinGecko sampleRuntime (allDown 1000) (trim (toLowerCase ''DoesNotExist123'')) = None"
    by code_simp
  have c: "fetchCoinCap sampleRuntime (allDown 1000) (trim (toLowerCase ''DoesNotExist123'')) = None"
    by code_simp
  have k: "fetchCryptoCompare sampleRuntime (allDown 1000) (trim (toLowerCase ''DoesNotExist123'')) = None"
    by code_simp
  from all_providers_fail [OF miss g c k] show ?thesis by auto
qed

subsection \<open>Several identifiers in one request\<close>

text \<open>The loop of the tool, turn by turn, and a failing turn, which leaves the cache as it is.\<close>

lemma resolveAll_Cons:
  "resolveAll rt c ((env, x) # rest) =
     (resultLine rt x (fst (getCryptoPrice rt env c x)) #
        fst (resolveAll rt (fst (snd (getCryptoPrice rt env c x))) rest),
      snd (resolveAll rt (fst (snd (getCryptoPrice rt env c x))) rest))"
  by (simp split: prod.splits)

lemma resolveAll_append:
  "resolveAll rt c (ps @ rs) =
     (fst (resolveAll rt c ps) @ fst (resolveAll rt (snd (resolveAll rt c ps)) rs),
      snd (resolveAll rt (snd (resolveAll rt c ps)) rs))"
proof (induction ps arbitrary: c)
  case Nil
  show ?case by simp
next
  case (Cons p ps)
  obtain env x where p: "p = (env, x)" by (cases p)
  show ?case
    unfolding p append_Cons resolveAll_Cons Cons.IH by simp
qed

lemma length_resolveAll: "length (fst (resolveAll rt c ps)) = length ps"
proof (induction ps arbitrary: c)
  case Nil
  show ?case by simp
next
  case (Cons p ps)
  obtain env x where p: "p = (env, x)" by (cases p)
  show ?case unfolding p resolveAll_Cons by (simp add: Cons.IH)
qed

lemma error_keeps_cache:
  "isl (fst (getCryptoPrice rt env c x)) \<Longrightarrow> fst (snd (getCryptoPrice rt env c x)) = c"
  by (auto simp: getCryptoPrice_def Let_def split: option.splits)

lemma length_turns: "length (turns envs s) = length (requestedIds s)"
  by (simp add: turns_def)

lemma nth_turns: "i < length (requestedIds s) \<Longrightarrow> turns envs s ! i = (envs i, requestedIds s ! i)"
  by (simp add: turns_def)

text \<open>
  Claim C4. \<open>getMultipleCryptoPrices\<close> produces one result for each piece between the
  commas of its input, duplicates included; the result at a position is that of the
  identifier at this position, resolved with the cache the earlier resolutions left; and
  a resolution that ends in an error leaves the results of the others as they are without
  it: the results of a run with a failing turn are those of the run without this turn,
  with the error line at its place.
\<close>

theorem batch_results:
  "length (priceLines rt envs cache cryptoIds) = length (split CHR '','' cryptoIds) \<and>
   (\<forall>i < length (requestedIds cryptoIds).
      priceLines rt envs cache cryptoIds ! i =
        resultLine rt (requestedIds cryptoIds ! i)
          (fst (getCryptoPrice rt (envs i)
                 (snd (resolveAll rt cache (take i (turns envs cryptoIds))))
                 (requestedIds cryptoIds ! i)))) \<and>
   (isl (fst (getCryptoPrice rt env (snd (resolveAll rt cache before)) failing)) \<longrightarrow>
      fst (resolveAll rt cache (before @ (env, failing) # after)) =
        take (length before) (fst (resolveAll rt cache (before @ after))) @
        resultLine rt failing (fst (getCryptoPrice rt env (snd (resolveAll rt cache before)) failing)) #
        drop (length before) (fst (resolveAll rt cache (before @ after))))"
proof (intro conjI allI impI)
  show "length (priceLines rt envs cache cryptoIds) = length (split CHR '','' cryptoIds)"
    by (simp add: priceLines_def length_resolveAll length_turns requestedIds_def)
next
  fix i assume i: "i < length (requestedIds cryptoIds)"
  let ?ts = "turns envs cryptoIds"
  have il: "i < length ?ts" using i by (simp add: length_turns)
  have split: "?ts = take i ?ts @ (envs i, requestedIds cryptoIds ! i) # drop (Suc i) ?ts"
    using id_take_nth_drop [OF il] nth_turns [OF i] by simp
  have "fst (resolveAll rt cache ?ts) ! i =
      (fst (resolveAll rt cache (take i ?ts)) @
       fst (resolveAll rt (snd (resolveAll rt cache (take i ?ts)))
             ((envs i, requestedIds cryptoIds ! i) # drop (Suc i) ?ts))) ! i"
    by (subst split) (simp only: resolveAll_append fst_conv)
  also have "\<dots> = resultLine rt (requestedIds cryptoIds ! i)
          (fst (getCryptoPrice rt (envs i)
                 (snd (resolveAll rt cache (take i ?ts))) (requestedIds cryptoIds ! i)))"
    using il by (simp add: nth_append length_resolveAll resolveAll_Cons del: resolveAll.simps)
  finally show "priceLines rt envs cache cryptoIds ! i =
        resultLine rt (requestedIds cryptoIds ! i)
          (fst (getCryptoPrice rt (envs i)
                 (snd (resolveAll rt cache (take i (turns envs cryptoIds))))
                 (requestedIds cryptoIds ! i)))"
    by (simp add: priceLines_def)
next
  assume err: "isl (fst (getCryptoPrice rt env (snd (resolveAll rt cache before)) failing))"
  show "fst (resolveAll rt cache (before @ (env, failing) # after)) =
        take (length before) (fst (resolveAll rt cache (before @ after))) @
        resultLine rt failing (fst (getCryptoPrice rt env (snd (resolveAll rt cache before)) failing)) #
        drop (length before) (fst (resolveAll rt cache (before @ after)))"
    by (simp add: resolveAll_append resolveAll_Cons error_keeps_cache [OF err] length_resolveAll
          del: resolveAll.simps)
qed

theorem batch_results_witness:
  "length (priceLines sampleRuntime batchEnvs Map.empty ''bitcoin,doesnotexist123'') = 2 \<and>
   priceLines sampleRuntime batchEnvs Map.empty ''bitcoin,doesnotexist123'' ! 0 =
     ''Bitcoin (BTC): $64000.13 USD [Source: coingecko-api]'' \<and>
   fst (resolveAll sampleRuntime Map.empty
          ([(geckoUp 1000, ''bitcoin'')] @ (allDown 2000, ''doesnotexist123'') #
           [(allDown 3000, ''bitcoin'')])) =
     [''Bitcoin (BTC): $64000.13 USD [Source: coingecko-api]'',
      resultLine sampleRuntime ''doesnotexist123'' (Inl (errorMessage ''doesnotexist123'')),
      ''Bitcoin (BTC): $64000.13 USD [Source: coingecko-api]'']"
proof -
  have n: "length (split CHR '','' ''bitcoin,doesnotexist123'') = 2" by code_simp
  have i: "0 < length (requestedIds ''bitcoin,doesnotexist123'')" by code_simp
  have line: "resultLine sampleRuntime (requestedIds ''bitcoin,doesnotexist123'' ! 0)
      (fst (getCryptoPrice sampleRuntime (batchEnvs 0)
             (snd (resolveAll sampleRuntime Map.empty
                     (take 0 (turns batchEnvs ''bitcoin,doesnotexist123''))))
             (requestedIds ''bitcoin,doesnotexist123'' ! 0))) =
      ''Bitcoin (BTC): $64000.13 USD [Source: coingecko-api]''"
    by code_simp
  have err: "fst (getCryptoPrice sampleRuntime (allDown 2000)
        (snd (resolveAll sampleRuntime Map.empty [(geckoUp 1000, ''bitcoin'')]))
        ''doesnotexist123'') = Inl (errorMessage ''doesnotexist123'')"
    by code_simp
  have without: "fst (resolveAll sampleRuntime Map.empty
        ([(geckoUp 1000, ''bitcoin'')] @ [(allDown 3000, ''bitcoin'')])) =
      [''Bitcoin (BTC): $64000.13 USD [Source: coingecko-api]'',
       ''Bitcoin (BTC): $64000.13 USD [Source: coingecko-api]'']"
    by code_simp
  note b = batch_results [where rt = sampleRuntime and envs = batchEnvs and cache = Map.empty
      and cryptoIds = "''bitcoin,doesnotexist123''" and env = "allDown 2000"
      and before = "[(geckoUp 1000, ''bitcoin'')]" and failing = "''doesnotexist123''"
      and after = "[(allDown 3000, ''bitcoin'')]"]
  from b have c1: "length (priceLines sampleRuntime batchEnvs Map.empty ''bitcoin,doesnotexist123'') = 2"
    unfolding n by (rule conjunct1)
  from b i have c2: "priceLines sampleRuntime batchEnvs Map.empty ''bitcoin,doesnotexist123'' ! 0 =
     ''Bitcoin (BTC): $64000.13 USD [Source: coingecko-api]''"
    unfolding line [symmetric] by blast
  have isl: "isl (fst (getCryptoPrice sampleRuntime (allDown 2000)
        (snd (resolveAll sampleRuntime Map.empty [(geckoUp 1000, ''bitcoin'')]))
        ''doesnotexist123''))"
    unfolding err by simp
  from b isl have c3: "fst (resolveAll sampleRuntime Map.empty
          ([(geckoUp 1000, ''bitcoin'')] @ (allDown 2000, ''doesnotexist123'') #
           [(allDown 3000, ''bitcoin'')])) =
        take (length [(geckoUp 1000, ''bitcoin'')])
          (fst (resolveAll sampleRuntime Map.empty
                 ([(geckoUp 1000, ''bitcoin'')] @ [(allDown 3000, ''bitcoin'')]))) @
        resultLine sampleRuntime ''doesnotexist123''
          (fst (getCryptoPrice sampleRuntime (allDown 2000)
             (snd (resolveAll sampleRuntime Map.empty [(geckoUp 1000, ''bitcoin'')]))
             ''doesnotexist123'')) #
        drop (length [(geckoUp 1000, ''bitcoin'')])
          (fst (resolveAll sampleRuntime Map.empty
                 ([(geckoUp 1000, ''bitcoin'')] @ [(allDown 3000, ''bitcoin'')])))"
    by blast
  have c3': "fst (resolveAll sampleRuntime Map.empty
          ([(geckoUp 1000, ''bitcoin'')] @ (allDown 2000, ''doesnotexist123'') #
           [(allDown 3000, ''bitcoin'')])) =
     [''Bitcoin (BTC): $64000.13 USD [Source: coingecko-api]'',
      resultLine sampleRuntime ''doesnotexist123'' (Inl (errorMessage ''doesnotexist123'')),
      ''Bitcoin (BTC): $64000.13 USD [Source: coingecko-api]'']"
    unfolding c3 without err by simp
  show ?thesis using c1 c2 c3' by (intro conjI)
qed

end
